theory Spec2Isabelle
  imports Complex_Main
begin

section \<open>Data model of \<open>depdf/page.py\<close>\<close>

text \<open>
  Coordinates and sizes are Python \<open>Decimal\<close> values in the source (the code converts
  configured tolerances with \<open>Decimal(...)\<close>). They are modelled as exact rationals; the
  rounding of \<open>Decimal\<close> division to 28 significant digits is not part of the model.
  A Python string is a list of characters, one per code point, so that \<open>len\<close> is
  \<open>length\<close>.
\<close>

type_synonym bbox = "rat \<times> rat \<times> rat \<times> rat"

datatype error =
    PageTypeError | ConfigTypeError
  | TypeError | KeyError | ZeroDivisionError | InvalidOperation | StatisticsError
  | ExternalError

text \<open>
  A word dictionary as \<open>extract_words\<close> returns it, with the keys the module reads:
  \<open>x0\<close>, \<open>top\<close>, \<open>x1\<close>, \<open>bottom\<close>, \<open>text\<close>. The header and footer descriptors
  of \<open>same\<close> are dictionaries of the same shape that also carry \<open>mode\<close> and \<open>level\<close>;
  a key that a dictionary does not have is \<open>None\<close>. Equality of records is equality of
  dictionaries, which is what Python's \<open>in\<close> on a list of dictionaries tests.
\<close>

record pword =
  w_x0 :: rat
  w_top :: rat
  w_x1 :: rat
  w_bottom :: rat
  w_text :: string
  w_mode :: "string option"
  w_level :: "string option"

record glyph =
  g_top :: rat
  g_bottom :: rat

text \<open>
  The components of \<open>depdf.components\<close> are kept as the constructor arguments that
  \<open>extract_paragraph\<close> passes (the shared \<open>config\<close> argument is left out). A style
  value \<open>'{0}px'.format(v)\<close> is \<open>Px v\<close>, \<open>'{0}px;'.format(v)\<close> is \<open>PxSemi v\<close>.
\<close>

datatype style_value = Px rat | PxSemi rat | Lit string

type_synonym style = "(string \<times> style_value) list"

datatype inner_object = Text bbox string | Span bbox string style

record Paragraph =
  pg_pid :: int
  pg_para_idx :: nat
  inner_objects :: "inner_object list"
  pg_style :: style

record Image =
  im_bbox :: bbox
  im_src :: string
  im_pid :: int
  im_idx :: nat
  im_scan :: bool

record Table =
  tb_bbox :: bbox
  tb_tid :: nat

record raw_table =
  rt_bbox :: bbox
  rt_cells :: "bbox list"

record figure =
  f_x0 :: rat
  f_top :: rat
  f_x1 :: rat
  f_bottom :: rat
  f_width :: rat
  f_height :: rat
  f_bbox :: bbox

record line =
  l_x0 :: rat
  l_top :: rat
  l_x1 :: rat
  l_bottom :: rat
  l_width :: rat
  l_height :: rat

record h_edge =
  he_top :: rat
  he_x0 :: rat
  he_x1 :: rat

record v_edge =
  ve_x :: rat
  ve_top :: rat
  ve_bottom :: rat

text \<open>The pdfplumber page: the attributes read directly by the module.\<close>

record page =
  width :: rat
  height :: rat
  chars :: "glyph list"

text \<open>The configuration attributes that the module reads with \<open>getattr\<close>.\<close>

record config =
  unique_prefix :: string
  temp_dir_prefix :: string
  verbose_flag :: bool
  debug_flag :: bool
  char_overlap_size :: rat
  default_char_size :: rat
  char_size_upper :: rat
  char_size_lower :: rat
  cfg_y_tolerance :: "rat option"
  cfg_x_tolerance :: "rat option"
  main_frame_tolerance :: "rat option"
  page_num_top_fraction :: rat
  page_num_left_fraction :: rat
  page_num_right_fraction :: rat
  table_flag :: bool
  image_flag :: bool
  paragraph_flag :: bool
  dotted_line_flag :: bool
  curved_line_flag :: bool
  vertical_double_line_tolerance :: rat
  max_double_line_tolerance :: rat
  min_double_line_tolerance :: rat
  min_image_size :: rat
  resolution :: rat

text \<open>
  The attribute \<open>prefix\<close>: the class attribute of line 41 is the object that
  \<open>uuid.uuid4()\<close> returned, not a string, until \<open>set_global\<close> stores the configured
  string. \<open>self.prefix + '...'\<close> raises \<open>TypeError\<close> on the former.
\<close>

datatype prefix_value = UuidObj | PrefixStr string

text \<open>
  The attributes of a \<open>DePage\<close> object. \<open>phrases\<close> is \<open>None\<close> until \<open>extract_phrases\<close>
  has run. The private lists \<open>_tables\<close>, \<open>_paragraphs\<close>, ... lose their underscore.
\<close>

record DePage =
  d_page :: page
  d_pid :: int
  d_config :: config
  same :: "pword list"
  same_tmp :: "pword list"
  logo :: "figure list"
  new_para_start_flag :: "bool option"
  new_para_end_flag :: "bool option"
  orientation :: string
  ave_cs :: rat
  min_cs :: rat
  x_tolerance :: rat
  y_tolerance :: rat
  pagination_phrases :: "pword list"
  phrases :: "pword list option"
  frame_top :: rat
  frame_bottom :: rat
  ave_lh :: rat
  border :: bbox
  v_edges :: "v_edge list"
  h_edges :: "h_edge list"
  verbose :: bool
  debug :: bool
  temp_dir :: string
  prefix :: prefix_value
  tables :: "Table list"
  table_phrases :: "pword list"
  tables_raw :: "raw_table list"
  paragraphs :: "Paragraph list"
  images :: "Image list"
  images_raw :: "figure list"
  image_phrases :: "pword list"
  toc_flag :: bool

text \<open>
  The lists of lines 30, 36--37 and 42--48 are class attributes: one list object each,
  shared by all pages. The constructor assigns none of them, so a new page reads what
  the shared lists hold at that moment. The methods of this module replace them by
  assignment on the page object; code outside it may have filled a shared list in place.
\<close>

record class_attrs =
  ca_pagination_phrases :: "pword list"
  ca_v_edges :: "v_edge list"
  ca_h_edges :: "h_edge list"
  ca_tables :: "Table list"
  ca_table_phrases :: "pword list"
  ca_tables_raw :: "raw_table list"
  ca_paragraphs :: "Paragraph list"
  ca_images :: "Image list"
  ca_images_raw :: "figure list"
  ca_image_phrases :: "pword list"

text \<open>
  The functions of \<open>depdf.page_tools\<close> and of pdfplumber, the default configuration of
  \<open>depdf.config\<close> and the contents of the shared class-level lists are not part of this
  module; they are parameters of the model. \<open>calculate_paragraph_border\<close> receives the
  page object: besides the border it returns, it records the phrases inside the tables
  in the list \<open>_table_phrases\<close> in place, and the model has it return the new contents
  of that list as well.
\<close>

type_synonym curve = "(rat \<times> rat) list"

record env =
  format_text :: "string \<Rightarrow> string"
  default_config :: config
  class_lists :: class_attrs
  remove_duplicate_chars :: "glyph list \<Rightarrow> rat \<Rightarrow> glyph list"
  analyze_char_size :: "glyph list \<Rightarrow> rat \<Rightarrow> rat \<Rightarrow> rat \<Rightarrow> rat \<times> rat"
  analyze_page_orientation :: "page \<Rightarrow> string"
  extract_words :: "page \<Rightarrow> rat \<Rightarrow> rat \<Rightarrow> pword list"
  analyze_page_num_word :: "pword list \<Rightarrow> rat \<Rightarrow> rat \<Rightarrow> rat \<Rightarrow> rat \<Rightarrow> rat \<Rightarrow> nat list"
  crop :: "page \<Rightarrow> bbox \<Rightarrow> error + glyph list"
  page_edges :: "page \<Rightarrow> line list"
  within_bbox_edges :: "page \<Rightarrow> bbox \<Rightarrow> error + line list"
  edges_to_lines :: "line list \<Rightarrow> line list \<times> line list"
  remove_single_lines :: "line list \<Rightarrow> rat \<Rightarrow> rat \<Rightarrow> rat \<Rightarrow> bool \<Rightarrow> line list"
  page_lines :: "page \<Rightarrow> line list"
  page_curves :: "page \<Rightarrow> curve list"
  curve_to_lines :: "curve list \<Rightarrow> line list \<times> line list"
  find_tables :: "page \<Rightarrow> v_edge list \<Rightarrow> h_edge list \<Rightarrow> rat \<Rightarrow> error + raw_table list"
  convert_plumber_table ::
    "page \<Rightarrow> raw_table \<Rightarrow> int \<Rightarrow> nat \<Rightarrow> config \<Rightarrow> rat \<Rightarrow> rat \<Rightarrow> Table option"
  merge_page_figures :: "page \<Rightarrow> raw_table list \<Rightarrow> figure list \<Rightarrow> int \<Rightarrow> figure list"
  image_file :: "string \<Rightarrow> string \<Rightarrow> int \<Rightarrow> nat \<Rightarrow> string"
  save_region :: "page \<Rightarrow> bbox \<Rightarrow> rat \<Rightarrow> string \<Rightarrow> error option"
  within_bbox_words :: "page \<Rightarrow> bbox \<Rightarrow> rat \<Rightarrow> error + pword list"
  calculate_paragraph_border :: "DePage \<Rightarrow> bbox \<times> pword list"
  paragraph_bbox :: "Paragraph \<Rightarrow> bbox"
  debug_image :: "string \<Rightarrow> DePage \<Rightarrow> error option"
  toc_marker :: "page \<Rightarrow> bool"

section \<open>Arithmetic that can raise\<close>

text \<open>
  \<open>Decimal\<close> division: a zero divisor raises \<open>decimal.DivisionByZero\<close> (a
  \<open>ZeroDivisionError\<close>), and \<open>0 / 0\<close> raises \<open>decimal.InvalidOperation\<close>.
\<close>

definition py_div :: "rat \<Rightarrow> rat \<Rightarrow> error + rat" where
  "py_div a b =
     (if b = 0 then (if a = 0 then Inl InvalidOperation else Inl ZeroDivisionError)
      else Inr (a / b))"

text \<open>
  The Python float literal \<open>0.3\<close>, compared with a \<open>Decimal\<close> by its exact binary
  value \<open>5404319552844595 / 2^54\<close>.
\<close>

definition float_0_3 :: rat where
  "float_0_3 = 5404319552844595 / 18014398509481984"

section \<open>\<open>extract_paragraph\<close>\<close>

text \<open>
  The variables of the loop of \<open>extract_paragraph\<close> that live across iterations.
  \<open>cur_left\<close> is the variable \<open>left\<close>, \<open>acc_paragraphs\<close> the local list \<open>paragraphs\<close>,
  \<open>cur_para_idx\<close> the counter \<open>para_idx\<close>.
\<close>

record loop_state =
  p_left :: rat
  p_top :: rat
  p_right :: rat
  p_bottom :: rat
  cur_left :: rat
  cur_para_idx :: nat
  acc_paragraphs :: "Paragraph list"
  paragraph_objects :: "inner_object list"
  ave_ts :: rat
  div_flag :: bool
  center_flag :: bool
  para_style :: style

record flags =
  new_line_flag :: bool
  new_para_flag :: bool
  fl_center :: bool
  fl_div :: bool

text \<open>Lines 417--418: the phrase is one of the four exclusion lists.\<close>

definition excluded :: "DePage \<Rightarrow> pword \<Rightarrow> bool" where
  "excluded st i =
     (i \<in> set (same_tmp st) \<or> i \<in> set (image_phrases st) \<or>
      i \<in> set (table_phrases st) \<or> i \<in> set (pagination_phrases st))"

text \<open>Lines 433--436: the table-of-contents branch.\<close>

definition toc_mode :: "loop_state \<Rightarrow> bbox \<Rightarrow> rat \<Rightarrow> flags \<Rightarrow> flags" where
  "toc_mode s bb ave_th f =
     (case bb of (left, top', right, bottom) \<Rightarrow>
        if bottom \<ge> p_bottom s + ave_th / 4 then f\<lparr>new_para_flag := True\<rparr>
        else f\<lparr>new_line_flag := False\<rparr>)"

text \<open>Lines 438--454: the normal branch.\<close>

definition normal_mode :: "DePage \<Rightarrow> loop_state \<Rightarrow> bbox \<Rightarrow> rat \<Rightarrow> rat \<Rightarrow> flags \<Rightarrow> flags" where
  "normal_mode st s bb ts ave_th f =
     (case bb of (left, top', right, bottom) \<Rightarrow>
      case border st of (ll, tt, lr, tb) \<Rightarrow>
        if bottom - p_bottom s \<ge> ave_th / 4 then
          let f1 = f\<lparr>new_line_flag := True, new_para_flag := True\<rparr>;
              f2 = (if top' - p_bottom s \<le> max (ave_th * 6 / 5) (ave_lh st) then
                      let g = (if \<bar>left - ll\<bar> \<le> ts \<and> p_right s > lr - ts * 3 / 2 then
                                 (if \<bar>(bottom - top') - (p_bottom s - p_top s)\<bar> \<le> 1
                                  then f1\<lparr>new_para_flag := False\<rparr> else f1)
                               else f1)
                      in (if \<bar>left - ll\<bar> \<le> 1 \<and> p_right s \<ge> lr - ts * 3 / 2
                          then g\<lparr>new_para_flag := False\<rparr> else g)
                    else f1)
          in (if new_para_flag f2 then
                let h = (if \<bar>width (d_page st) - right - left\<bar> \<le> ts / 2 then
                           (if \<bar>lr - right\<bar> \<ge> 4 * ts then f2\<lparr>fl_center := True\<rparr> else f2)
                         else f2)
                in (if left > ll + ts * 4 then h\<lparr>fl_div := True\<rparr> else h)
              else f2)
        else if \<bar>left - p_right s\<bar> \<ge> ts * 2 then
          (if \<bar>top' - p_top s\<bar> \<le> ts / 2
           then f\<lparr>new_line_flag := False, new_para_flag := False\<rparr> else f)
        else f)"

text \<open>
  Lines 421--436: the flags of one phrase. \<open>new_para_flag\<close> starts false and is forced
  true while the list of paragraphs is empty, before the mode is looked at.
\<close>

definition phrase_flags :: "DePage \<Rightarrow> loop_state \<Rightarrow> bbox \<Rightarrow> rat \<Rightarrow> rat \<Rightarrow> flags" where
  "phrase_flags st s bb ts ave_th =
     (let f0 = \<lparr>new_line_flag = True, new_para_flag = False, fl_center = False, fl_div = False\<rparr>;
          f = (if acc_paragraphs s = [] then f0\<lparr>new_para_flag := True\<rparr> else f0)
      in if toc_flag st then toc_mode s bb ave_th f else normal_mode st s bb ts ave_th f)"

text \<open>
  Lines 466--471 and 484--489 (the same statements twice): the style of a paragraph,
  built on an empty dictionary. The division by \<open>ave_cs\<close> can raise.
\<close>

definition infer_style :: "rat \<Rightarrow> rat \<Rightarrow> bool \<Rightarrow> bool \<Rightarrow> rat \<Rightarrow> error + style" where
  "infer_style ts cs center dv margin =
     (case py_div \<bar>ts - cs\<bar> cs of
        Inl e \<Rightarrow> Inl e
      | Inr r \<Rightarrow>
          Inr ((if r \<ge> float_0_3 then [(''font-size'', PxSemi ts)] else []) @
               (if center then [(''align'', Lit ''center'')]
                else if dv then [(''margin-left'', Px margin)] else [])))"

text \<open>Lines 456--463: the accumulated objects are closed into a paragraph.\<close>

definition flush :: "DePage \<Rightarrow> loop_state \<Rightarrow> loop_state" where
  "flush st s =
     s\<lparr>acc_paragraphs := acc_paragraphs s @
          [\<lparr>pg_pid = d_pid st, pg_para_idx = cur_para_idx s,
            inner_objects = paragraph_objects s, pg_style = para_style s\<rparr>],
       para_style := [],
       paragraph_objects := [],
       cur_para_idx := cur_para_idx s + 1\<rparr>"

text \<open>Lines 417--479: the body of the loop for the phrase \<open>i\<close>.\<close>

definition phrase_step :: "env \<Rightarrow> DePage \<Rightarrow> loop_state \<Rightarrow> pword \<Rightarrow> error + loop_state" where
  "phrase_step en st s i =
     (if excluded st i then Inr s
      else
        (case py_div (w_x1 i - w_x0 i) (of_nat (length (w_text i))) of
          Inl e \<Rightarrow> Inl e
        | Inr q \<Rightarrow>
            let ts = max q (ave_cs st);
                ave_th = max (w_bottom i - w_top i) (ave_cs st);
                bb = (w_x0 i, w_top i, w_x1 i, w_bottom i);
                txt = (if w_text i \<noteq> [] then format_text en (w_text i) else []);
                f = phrase_flags st s bb ts ave_th;
                s1 = (if new_para_flag f \<and> paragraph_objects s \<noteq> [] then flush st s else s);
                ll = fst (border st)
            in
              (case (if para_style s1 = []
                     then infer_style ts (ave_cs st) (fl_center f) (fl_div f) (w_x0 i - ll)
                     else Inr (para_style s1)) of
                 Inl e \<Rightarrow> Inl e
               | Inr sty \<Rightarrow>
                  Inr (s1\<lparr>para_style := sty,
                          paragraph_objects := paragraph_objects s1 @
                            [if new_line_flag f then Text bb txt
                             else Span bb txt [(''margin-left'', Px (w_x0 i - p_left s))]],
                          ave_ts := ts,
                          div_flag := fl_div f,
                          center_flag := fl_center f,
                          cur_left := w_x0 i,
                          p_left := w_x0 i, p_top := w_top i,
                          p_right := w_x1 i, p_bottom := w_bottom i\<rparr>))))"

fun phrase_loop :: "env \<Rightarrow> DePage \<Rightarrow> loop_state \<Rightarrow> pword list \<Rightarrow> error + loop_state" where
  "phrase_loop en st s [] = Inr s"
| "phrase_loop en st s (i # rest) =
     (case phrase_step en st s i of
        Inl e \<Rightarrow> Inl e
      | Inr s' \<Rightarrow> phrase_loop en st s' rest)"

text \<open>Lines 408--415: the variables before the loop.\<close>

definition init_loop :: "DePage \<Rightarrow> loop_state" where
  "init_loop st =
     (case border st of (ll, tt, lr, tb) \<Rightarrow>
        \<lparr>p_left = ll, p_top = tt, p_right = ll, p_bottom = tt, cur_left = ll,
         cur_para_idx = 1, acc_paragraphs = [], paragraph_objects = [],
         ave_ts = ave_cs st, div_flag = False, center_flag = False, para_style = []\<rparr>)"

text \<open>Lines 482--493: the last paragraph.\<close>

definition final_flush :: "DePage \<Rightarrow> loop_state \<Rightarrow> error + Paragraph list" where
  "final_flush st s =
     (if paragraph_objects s \<noteq> [] then
        case infer_style (ave_ts s) (ave_cs st) (center_flag s) (div_flag s)
               (cur_left s - fst (border st)) of
          Inl e \<Rightarrow> Inl e
        | Inr sty \<Rightarrow>
            Inr (acc_paragraphs s @
                 [\<lparr>pg_pid = d_pid st, pg_para_idx = cur_para_idx s,
                   inner_objects = paragraph_objects s, pg_style = sty\<rparr>])
      else Inr (acc_paragraphs s))"

text \<open>
  Lines 495--504: the continuation flags, from the first element of \<open>self.phrases\<close> and
  the right edge of the last phrase that the loop processed.
\<close>

definition continuation_flags ::
    "DePage \<Rightarrow> pword list \<Rightarrow> loop_state \<Rightarrow> Paragraph list \<Rightarrow> error + (bool option \<times> bool option)" where
  "continuation_flags st ps s paras =
     (if paras = [] then Inr (None, None)
      else
        case ps of
          [] \<Rightarrow> Inr (Some True, Some True)
        | first_phrase # _ \<Rightarrow>
            (case py_div (w_x1 first_phrase - w_x0 first_phrase)
                    (of_nat (length (w_text first_phrase))) of
               Inl e \<Rightarrow> Inl e
             | Inr ts \<Rightarrow>
                 (case border st of (ll, tt, lr, tb) \<Rightarrow>
                    Inr (Some (\<not> (w_x0 first_phrase - ll \<le> max ts (ave_cs st))),
                         Some (\<not> (\<bar>p_right s - lr\<bar> \<le> max ts (ave_cs st) * 3 / 2))))))"

text \<open>
  \<open>extract_paragraph\<close>. The three attributes are assigned in the last three lines, so a
  run that raises leaves the object as it was: \<open>Inl\<close>.
\<close>

definition extract_paragraph :: "env \<Rightarrow> DePage \<Rightarrow> error + DePage" where
  "extract_paragraph en st =
     (case phrases st of
        None \<Rightarrow> Inl TypeError
      | Some ps \<Rightarrow>
          (case phrase_loop en st (init_loop st) ps of
             Inl e \<Rightarrow> Inl e
           | Inr s \<Rightarrow>
               (case final_flush st s of
                  Inl e \<Rightarrow> Inl e
                | Inr paras \<Rightarrow>
                    (case continuation_flags st ps s paras of
                       Inl e \<Rightarrow> Inl e
                     | Inr (sf, ef) \<Rightarrow>
                         Inr (st\<lparr>paragraphs := paras,
                                 new_para_start_flag := sf,
                                 new_para_end_flag := ef\<rparr>)))))"

section \<open>Construction\<close>

text \<open>
  A Python object handed to the constructor: a pdfplumber page, a depdf configuration,
  \<open>None\<close>, or anything else.
\<close>

datatype pyobj = PageObj page | ConfigObj config | NoneObj | OtherObj string

text \<open>
  Lines 511--513. The model returns the page that passed the check, which the caller
  stores.
\<close>

definition check_page_type :: "pyobj \<Rightarrow> error + page" where
  "check_page_type p = (case p of PageObj pg \<Rightarrow> Inr pg | _ \<Rightarrow> Inl PageTypeError)"

text \<open>
  Modelled from the spec: \<open>check_config_type\<close> of \<open>depdf.config\<close>, which is not among the
  sources. ``An input page or configuration object of the wrong kind is rejected
  immediately with a type-mismatch error.''
\<close>

definition check_config_type :: "pyobj \<Rightarrow> error + config" where
  "check_config_type c = (case c of ConfigObj cfg \<Rightarrow> Inr cfg | _ \<Rightarrow> Inl ConfigTypeError)"

text \<open>
  Modelled from the spec: the decorator \<open>check_config\<close> of \<open>depdf.config\<close>, which wraps
  the constructor (line 52) and is not among the sources. It runs before the body of
  the constructor. \<open>None\<close>, the default of the parameter \<open>config\<close> in line 53, stands
  for no configuration: the decorator then hands the default configuration to the
  constructor. A configuration that is supplied is checked with \<open>check_config_type\<close>
  (``a configuration object of the wrong kind is rejected immediately'') and handed
  on.
\<close>

definition check_config :: "env \<Rightarrow> pyobj \<Rightarrow> error + pyobj" where
  "check_config en c =
     (case c of
        NoneObj \<Rightarrow> Inr (ConfigObj (default_config en))
      | _ \<Rightarrow> (case check_config_type c of Inl e \<Rightarrow> Inl e | Inr cfg \<Rightarrow> Inr c))"

text \<open>Lines 86--94. An empty string is false in Python.\<close>

definition set_global :: "DePage \<Rightarrow> DePage" where
  "set_global st =
     (let st1 = (if unique_prefix (d_config st) \<noteq> []
                 then st\<lparr>prefix := PrefixStr (unique_prefix (d_config st))\<rparr> else st);
          st2 = (if temp_dir_prefix (d_config st1) \<noteq> []
                 then st1\<lparr>temp_dir := temp_dir_prefix (d_config st1)\<rparr> else st1)
      in st2\<lparr>verbose := verbose_flag (d_config st2), debug := debug_flag (d_config st2)\<rparr>)"

text \<open>
  Lines 53--71, the body of the constructor, with the class attributes of lines 21--50
  as the initial values. The comprehension of line 67 iterates over the argument
  \<open>same\<close>, not over \<open>self.same\<close>, so it raises \<open>TypeError\<close> when \<open>same\<close> is \<open>None\<close>.
  \<open>pid\<close> is an integer, on which \<open>int(pid)\<close> is the identity.
\<close>

definition init_body ::
    "env \<Rightarrow> pyobj \<Rightarrow> int \<Rightarrow> pword list option \<Rightarrow> figure list option \<Rightarrow> pyobj \<Rightarrow> error + DePage" where
  "init_body en page_arg pid same_arg logo_arg config_arg =
     (case check_page_type page_arg of
        Inl e \<Rightarrow> Inl e
      | Inr pg \<Rightarrow>
          (case check_config_type config_arg of
             Inl e \<Rightarrow> Inl e
           | Inr cfg \<Rightarrow>
               (case same_arg of
                  None \<Rightarrow> Inl TypeError
                | Some sm \<Rightarrow>
                    Inr (set_global
                      \<lparr>d_page = pg, d_pid = pid, d_config = cfg,
                       same = sm,
                       same_tmp = map (\<lambda>i. i\<lparr>w_mode := None\<rparr>) sm,
                       logo = (case logo_arg of None \<Rightarrow> [] | Some l \<Rightarrow> l),
                       new_para_start_flag = None, new_para_end_flag = None,
                       orientation = [], ave_cs = 0, min_cs = 0,
                       x_tolerance = 3, y_tolerance = 3,
                       pagination_phrases = ca_pagination_phrases (class_lists en),
                       phrases = None,
                       frame_top = 0, frame_bottom = width pg,
                       ave_lh = 3, border = (0, width pg, 0, height pg),
                       v_edges = ca_v_edges (class_lists en),
                       h_edges = ca_h_edges (class_lists en),
                       verbose = False, debug = False,
                       temp_dir = ''temp'', prefix = UuidObj,
                       tables = ca_tables (class_lists en),
                       table_phrases = ca_table_phrases (class_lists en),
                       tables_raw = ca_tables_raw (class_lists en),
                       paragraphs = ca_paragraphs (class_lists en),
                       images = ca_images (class_lists en),
                       images_raw = ca_images_raw (class_lists en),
                       image_phrases = ca_image_phrases (class_lists en),
                       toc_flag = False\<rparr>))))"

text \<open>Lines 52--71: the constructor as callers see it, the decorator around the body.\<close>

definition DePage_init ::
    "env \<Rightarrow> pyobj \<Rightarrow> int \<Rightarrow> pword list option \<Rightarrow> figure list option \<Rightarrow> pyobj \<Rightarrow> error + DePage" where
  "DePage_init en page_arg pid same_arg logo_arg config_arg =
     (case check_config en config_arg of
        Inl e \<Rightarrow> Inl e
      | Inr c \<Rightarrow> init_body en page_arg pid same_arg logo_arg c)"

section \<open>Page attributes and main frame\<close>

text \<open>
  Lines 230--242. \<open>Decimal(cyt)\<close> of a configured number is that number.
\<close>

definition analyze_page_attributes :: "env \<Rightarrow> DePage \<Rightarrow> DePage" where
  "analyze_page_attributes en st =
     (let cfg = d_config st;
          (a, m) = analyze_char_size en (chars (d_page st)) (char_size_upper cfg)
                     (char_size_lower cfg) (default_char_size cfg);
          st1 = st\<lparr>ave_cs := a, min_cs := m,
                    orientation := analyze_page_orientation en (d_page st)\<rparr>;
          y_tol = (if ave_cs st1 / 3 \<le> 3 then 3 else ave_cs st1 / 2);
          st2 = st1\<lparr>y_tolerance := (case cfg_y_tolerance cfg of Some cyt \<Rightarrow> cyt | None \<Rightarrow> y_tol)\<rparr>
      in st2\<lparr>x_tolerance :=
               (case cfg_x_tolerance cfg of Some cxt \<Rightarrow> cxt | None \<Rightarrow> ave_cs st2 * 3 / 2)\<rparr>)"

text \<open>
  Lines 249 and 251: the descriptors of \<open>same\<close> whose \<open>mode\<close> is the orientation of the
  page and whose \<open>level\<close> is \<open>lv\<close>. Reading a key that a descriptor lacks raises
  \<open>KeyError\<close>; \<open>level\<close> is read only when \<open>mode\<close> matched.
\<close>

fun select_level :: "string \<Rightarrow> string \<Rightarrow> pword list \<Rightarrow> error + pword list" where
  "select_level ori lv [] = Inr []"
| "select_level ori lv (i # rest) =
     (case w_mode i of
        None \<Rightarrow> Inl KeyError
      | Some m \<Rightarrow>
          if m = ori then
            (case w_level i of
               None \<Rightarrow> Inl KeyError
             | Some l \<Rightarrow>
                 (case select_level ori lv rest of
                    Inl e \<Rightarrow> Inl e
                  | Inr r \<Rightarrow> Inr (if l = lv then i # r else r)))
          else select_level ori lv rest)"

text \<open>Python's \<open>max(xs) if xs else d\<close> and \<open>min(xs) if xs else d\<close>.\<close>

definition max_or :: "rat \<Rightarrow> rat list \<Rightarrow> rat" where
  "max_or d xs = (case xs of [] \<Rightarrow> d | x # rest \<Rightarrow> fold max rest x)"

definition min_or :: "rat \<Rightarrow> rat list \<Rightarrow> rat" where
  "min_or d xs = (case xs of [] \<Rightarrow> d | x # rest \<Rightarrow> fold min rest x)"

text \<open>Lines 244--253.\<close>

definition analyze_main_frame :: "DePage \<Rightarrow> error + DePage" where
  "analyze_main_frame st =
     (let mft = (case main_frame_tolerance (d_config st) of
                   None \<Rightarrow> ave_cs st / 2 | Some t \<Rightarrow> t)
      in case select_level (orientation st) ''head'' (same st) of
           Inl e \<Rightarrow> Inl e
         | Inr heads \<Rightarrow>
             (case select_level (orientation st) ''tail'' (same st) of
                Inl e \<Rightarrow> Inl e
              | Inr tails \<Rightarrow>
                  Inr (st\<lparr>frame_top := max_or 0 (map (\<lambda>i. w_bottom i + mft) heads),
                          frame_bottom := min_or (height (d_page st)) (map w_top tails)\<rparr>)))"

section \<open>Phrases\<close>

text \<open>\<open>statistics.mean\<close> on a non-empty list and \<open>statistics.median\<close>.\<close>

definition mean :: "rat list \<Rightarrow> rat" where
  "mean xs = sum_list xs / of_nat (length xs)"

definition median :: "rat list \<Rightarrow> error + rat" where
  "median xs =
     (let d = sort xs; n = length d
      in if n = 0 then Inl StatisticsError
         else if n mod 2 = 1 then Inr (d ! (n div 2))
         else Inr ((d ! (n div 2 - 1) + d ! (n div 2)) / 2))"

text \<open>
  Lines 274--281: the body of the normalising loop for one word. Every exception inside
  the \<open>try\<close> is swallowed, and the two keys are assigned only in its last statement.
\<close>

definition normalize_word :: "env \<Rightarrow> page \<Rightarrow> pword \<Rightarrow> pword" where
  "normalize_word en pg w =
     (case crop en pg (w_x0 w, w_top w, w_x1 w, w_bottom w) of
        Inl e \<Rightarrow> w
      | Inr cs \<Rightarrow>
          (case median (map g_top cs) of
             Inl e \<Rightarrow> w
           | Inr t \<Rightarrow>
               (case median (map g_bottom cs) of
                  Inl e \<Rightarrow> w
                | Inr b \<Rightarrow> w\<lparr>w_top := t, w_bottom := b\<rparr>)))"

text \<open>
  Lines 255--286. The words of pdfplumber always carry \<open>top\<close> and \<open>bottom\<close>, so the two
  key tests of line 258 are true. \<open>analyze_page_num_word\<close> is taken to return elements
  of the list it is given, named here by their positions: the loop of line 273 updates
  those dictionaries in place, and the pagination list sees the update.
\<close>

definition extract_phrases :: "env \<Rightarrow> DePage \<Rightarrow> error + DePage" where
  "extract_phrases en st =
     (let pg = d_page st; cfg = d_config st;
          ps = filter (\<lambda>i. w_top i \<ge> frame_top st \<and> w_bottom i \<le> frame_bottom st)
                 (extract_words en pg (x_tolerance st) (y_tolerance st));
          line_heights = filter (\<lambda>x. x > 0)
                           (map (\<lambda>(a, b). w_top b - w_bottom a) (zip ps (tl ps)));
          lh = (if line_heights \<noteq> [] then mean line_heights else ave_cs st / 2);
          pn = analyze_page_num_word en ps (height pg) (width pg)
                 (page_num_top_fraction cfg) (page_num_left_fraction cfg)
                 (page_num_right_fraction cfg);
          ps' = map (normalize_word en pg) ps;
          st1 = st\<lparr>phrases := Some ps', ave_lh := lh,
                    pagination_phrases := map (\<lambda>k. ps' ! k) (filter (\<lambda>k. k < length ps') pn)\<rparr>
      in if debug st1 then
           (case debug_image en ''_text_border_'' st1 of
              Some e \<Rightarrow> Inl e
            | None \<Rightarrow> Inr st1)
         else Inr st1)"

section \<open>Lines, tables, images and the paragraph border\<close>

text \<open>
  A stage that raises aborts \<open>process_page\<close>; the model returns \<open>Inl\<close> for it. The
  debug branches draw on the page image and save it; they assign no attribute of the
  page object and are the parameter \<open>debug_image\<close>, which may raise (it stands for the
  drawing, for the file name built from \<open>self.prefix\<close> and for the saving). The calls
  of the logger are left out.
\<close>

definition debug_step :: "env \<Rightarrow> string \<Rightarrow> DePage \<Rightarrow> error + DePage" where
  "debug_step en tag st =
     (case debug_image en tag st of Some e \<Rightarrow> Inl e | None \<Rightarrow> Inr st)"

definition and_then :: "error + 'a \<Rightarrow> ('a \<Rightarrow> error + 'b) \<Rightarrow> error + 'b" where
  "and_then r f = (case r of Inl e \<Rightarrow> Inl e | Inr x \<Rightarrow> f x)"

text \<open>Lines 288--329.\<close>

definition analyze_lines :: "env \<Rightarrow> DePage \<Rightarrow> error + DePage" where
  "analyze_lines en st =
     (let pg = d_page st; cfg = d_config st;
          rect_edges_raw =
            (case within_bbox_edges en pg (1, 1, width pg - 1, height pg - 1) of
               Inl e \<Rightarrow> page_edges en pg
             | Inr es \<Rightarrow> es);
          (h0, v0) = edges_to_lines en rect_edges_raw;
          h1 = remove_single_lines en h0 (max_double_line_tolerance cfg)
                 (min_double_line_tolerance cfg) (vertical_double_line_tolerance cfg) False;
          v1 = remove_single_lines en v0 (max_double_line_tolerance cfg)
                 (min_double_line_tolerance cfg) (vertical_double_line_tolerance cfg) True;
          h2 = (if dotted_line_flag cfg
                then h1 @ filter (\<lambda>i. l_height i = 0) (page_lines en pg) else h1);
          v2 = (if dotted_line_flag cfg
                then v1 @ filter (\<lambda>i. l_width i = 0) (page_lines en pg) else v1);
          (hc, vc) = curve_to_lines en (if curved_line_flag cfg then page_curves en pg else []);
          st1 = st\<lparr>h_edges := map (\<lambda>i. \<lparr>he_top = l_top i, he_x0 = l_x0 i, he_x1 = l_x1 i\<rparr>)
                                  (h2 @ hc),
                    v_edges := map (\<lambda>i. \<lparr>ve_x = l_x0 i, ve_top = l_top i, ve_bottom = l_bottom i\<rparr>)
                                  (v2 @ vc)\<rparr>
      in if debug st1 then
           and_then (debug_step en ''_table_cell_border_h_clean_'' st1)
             (debug_step en ''_table_cell_border_v_clean_'')
         else Inr st1)"

text \<open>Lines 331--359.\<close>

definition extract_tables :: "env \<Rightarrow> DePage \<Rightarrow> error + DePage" where
  "extract_tables en st =
     (let raw = (case find_tables en (d_page st) (v_edges st) (h_edges st) (ave_cs st) of
                   Inl e \<Rightarrow> []
                 | Inr ts \<Rightarrow> sort_key (\<lambda>t. fst (snd (rt_bbox t))) ts);
          st1 = st\<lparr>tables_raw := raw\<rparr>
      in and_then (if debug st1 \<and> raw \<noteq> [] then debug_step en ''_table_cell_border_'' st1
                   else Inr st1)
           (\<lambda>st2. Inr (st2\<lparr>tables :=
              List.map_filter
                (\<lambda>(tid, t). convert_plumber_table en (d_page st2) t (d_pid st2) (tid + 1)
                              (d_config st2) (min_cs st2) (ave_cs st2))
                (enumerate 0 raw)\<rparr>)))"

text \<open>
  The Python float literal \<open>0.7\<close> of line 379, by its exact binary value
  \<open>6305039478318694 / 2^53\<close>.
\<close>

definition float_0_7 :: rat where
  "float_0_7 = 6305039478318694 / 9007199254740992"

text \<open>
  Lines 371--381: the loop over the raw figures. The file name of line 374 is built
  first; \<open>self.prefix + '...'\<close> raises \<open>TypeError\<close> while the prefix is the UUID object.
  Cutting the region out of the page, rendering and saving it is the parameter
  \<open>save_region\<close>, which may raise.
\<close>

fun image_loop :: "env \<Rightarrow> DePage \<Rightarrow> (nat \<times> figure) list \<Rightarrow> error + Image list" where
  "image_loop en st [] = Inr []"
| "image_loop en st ((fid, i) # rest) =
     (if f_height i \<le> min_image_size (d_config st) \<or> f_width i \<le> min_image_size (d_config st)
      then image_loop en st rest
      else
        (case prefix st of
           UuidObj \<Rightarrow> Inl TypeError
         | PrefixStr pre \<Rightarrow>
             let img_file = image_file en (temp_dir st) pre (d_pid st) (fid + 1);
                 bb = (f_x0 i, f_top i, f_x1 i, f_bottom i)
             in (case save_region en (d_page st) bb (resolution (d_config st)) img_file of
                   Some e \<Rightarrow> Inl e
                 | None \<Rightarrow>
                     and_then (py_div (f_width i * f_height i) (width (d_page st))) (\<lambda>q.
                     and_then (py_div q (height (d_page st))) (\<lambda>r.
                     and_then (image_loop en st rest) (\<lambda>imgs.
                       Inr (\<lparr>im_bbox = bb, im_src = img_file, im_pid = d_pid st,
                             im_idx = fid + 1, im_scan = (r \<ge> float_0_7)\<rparr> # imgs)))))))"

text \<open>Lines 361--395.\<close>

definition extract_images :: "env \<Rightarrow> DePage \<Rightarrow> error + DePage" where
  "extract_images en st =
     (let raw = merge_page_figures en (d_page st) (tables_raw st) (logo st) (d_pid st);
          st1 = st\<lparr>images_raw := raw\<rparr>
      in and_then (image_loop en st1 (enumerate 0 raw)) (\<lambda>imgs.
         and_then (if debug st1 \<and> raw \<noteq> []
                   then debug_step en ''_image_border_'' (st1\<lparr>images := imgs\<rparr>)
                   else Inr (st1\<lparr>images := imgs\<rparr>)) (\<lambda>st2.
           Inr (st2\<lparr>image_phrases :=
                  concat (map (\<lambda>im. case within_bbox_words en (d_page st2) (f_bbox im)
                                            (ave_cs st2 * 3 / 2) of
                                       Inl e \<Rightarrow> [] | Inr ws \<Rightarrow> ws) raw)\<rparr>))))"

text \<open>
  Lines 397--404. The call of line 398 has filled \<open>_table_phrases\<close> in place before
  line 399 assigns the border.
\<close>

definition analyze_paragraph_border :: "env \<Rightarrow> DePage \<Rightarrow> error + DePage" where
  "analyze_paragraph_border en st =
     (let (b, tp) = calculate_paragraph_border en st;
          st1 = st\<lparr>table_phrases := tp, border := b\<rparr>
      in if debug st1 then debug_step en ''_paragraph_border_'' st1 else Inr st1)"

section \<open>\<open>process_page\<close> and \<open>check_if_toc_page\<close>\<close>

text \<open>
  Lines 219--228, the only assignment to \<open>toc_flag\<close> in the module. What the function
  looks for in the text of the page (the table-of-contents marker and a line that
  \<open>TOC_LINE_RE\<close> matches, its last group not ending in a digit) is the parameter
  \<open>toc_marker\<close>.
\<close>

definition check_if_toc_page :: "env \<Rightarrow> DePage \<Rightarrow> DePage" where
  "check_if_toc_page en st = (if toc_marker en (d_page st) then st\<lparr>toc_flag := True\<rparr> else st)"


datatype page_object = TableObj Table | ParagraphObj Paragraph | ImageObj Image

definition object_top :: "env \<Rightarrow> page_object \<Rightarrow> rat" where
  "object_top en ob =
     (case ob of
        TableObj t \<Rightarrow> fst (snd (tb_bbox t))
      | ParagraphObj p \<Rightarrow> fst (snd (paragraph_bbox en p))
      | ImageObj im \<Rightarrow> fst (snd (im_bbox im)))"

text \<open>
  Lines 182--217. \<open>remove_duplicate_chars\<close> works on the list \<open>page.chars\<close> in place.
  No call of \<open>check_if_toc_page\<close> stands in this function.
\<close>

definition process_page :: "env \<Rightarrow> DePage \<Rightarrow> error + (page_object list \<times> DePage)" where
  "process_page en st =
     (let st0 = st\<lparr>d_page := (d_page st)\<lparr>chars :=
                   remove_duplicate_chars en (chars (d_page st))
                     (char_overlap_size (d_config st))\<rparr>\<rparr>;
          st1 = analyze_page_attributes en st0
      in and_then (analyze_main_frame st1) (\<lambda>st2.
         and_then (extract_phrases en st2) (\<lambda>st3.
         and_then (if table_flag (d_config st3)
                   then and_then (analyze_lines en st3) (extract_tables en)
                   else Inr st3) (\<lambda>st4.
         and_then (if image_flag (d_config st4) then extract_images en st4 else Inr st4) (\<lambda>st5.
         and_then (if paragraph_flag (d_config st5)
                   then and_then (analyze_paragraph_border en st5) (extract_paragraph en)
                   else Inr st5) (\<lambda>st6.
           Inr (sort_key (object_top en)
                  (map TableObj (tables st6) @ map ParagraphObj (paragraphs st6) @
                   map ImageObj (images st6)),
                st6)))))))"

section \<open>Notions used in the statements\<close>






text \<open>
  A header or footer descriptor that matches the orientation of the page and has the
  level \<open>lv\<close>, and the margin that \<open>analyze_main_frame\<close> adds below the header zones.
\<close>

definition matching :: "DePage \<Rightarrow> string \<Rightarrow> pword \<Rightarrow> bool" where
  "matching st lv i = (w_mode i = Some (orientation st) \<and> w_level i = Some lv)"

definition margin :: "DePage \<Rightarrow> rat" where
  "margin st =
     (case main_frame_tolerance (d_config st) of None \<Rightarrow> ave_cs st / 2 | Some t \<Rightarrow> t)"

text \<open>
  The bounding box of a word, and the words that line 258 keeps: those inside the main
  frame.
\<close>

definition word_bbox :: "pword \<Rightarrow> bbox" where
  "word_bbox w = (w_x0 w, w_top w, w_x1 w, w_bottom w)"

definition framed_words :: "env \<Rightarrow> DePage \<Rightarrow> pword list" where
  "framed_words en st =
     filter (\<lambda>i. w_top i \<ge> frame_top st \<and> w_bottom i \<le> frame_bottom st)
       (extract_words en (d_page st) (x_tolerance st) (y_tolerance st))"

text \<open>
  The phrases that pass the test of lines 417--418, the bounding box and the text of a
  \<open>Text\<close> or \<open>Span\<close> entry, the entries of a list of paragraphs in order, and the entries
  that the loop of \<open>extract_paragraph\<close> holds in a given state: those of the closed
  paragraphs and those still accumulated.
\<close>

definition survivors :: "DePage \<Rightarrow> pword list \<Rightarrow> pword list" where
  "survivors st ps = filter (\<lambda>i. \<not> excluded st i) ps"

fun entry_bbox :: "inner_object \<Rightarrow> bbox" where
  "entry_bbox (Text bb t) = bb"
| "entry_bbox (Span bb t sty) = bb"

fun entry_text :: "inner_object \<Rightarrow> string" where
  "entry_text (Text bb t) = t"
| "entry_text (Span bb t sty) = t"

definition all_entries :: "Paragraph list \<Rightarrow> inner_object list" where
  "all_entries paras = concat (map inner_objects paras)"

definition loop_entries :: "loop_state \<Rightarrow> inner_object list" where
  "loop_entries s = all_entries (acc_paragraphs s) @ paragraph_objects s"

text \<open>
  The glyph width of a phrase with non-empty text, \<open>max(width / len(text), ave_cs)\<close>, and
  the flags that the loop body computes for the phrase \<open>i\<close> in the state \<open>s\<close>.
\<close>

definition glyph_width :: "DePage \<Rightarrow> pword \<Rightarrow> rat" where
  "glyph_width st w = max ((w_x1 w - w_x0 w) / of_nat (length (w_text w))) (ave_cs st)"

definition step_flags :: "DePage \<Rightarrow> loop_state \<Rightarrow> pword \<Rightarrow> flags" where
  "step_flags st s i =
     phrase_flags st s (word_bbox i)
       (max ((w_x1 i - w_x0 i) / of_nat (length (w_text i))) (ave_cs st))
       (max (w_bottom i - w_top i) (ave_cs st))"

section \<open>Example inputs\<close>

text \<open>
  A concrete environment, configuration and page object on which the theorems below
  are evaluated: a portrait page of 450 by 800 units with average character size 10,
  average line height 12 and paragraph border \<open>(50, 100, 400, 700)\<close>.
\<close>

definition demo_config :: config where
  "demo_config =
     \<lparr>unique_prefix = [], temp_dir_prefix = [], verbose_flag = False, debug_flag = False,
      char_overlap_size = 3, default_char_size = 12, char_size_upper = 30,
      char_size_lower = 3, cfg_y_tolerance = None, cfg_x_tolerance = None,
      main_frame_tolerance = None, page_num_top_fraction = 7 / 10,
      page_num_left_fraction = 3 / 10, page_num_right_fraction = 7 / 10,
      table_flag = True, image_flag = True, paragraph_flag = True,
      dotted_line_flag = True, curved_line_flag = False,
      vertical_double_line_tolerance = 5, max_double_line_tolerance = 3,
      min_double_line_tolerance = 1 / 20, min_image_size = 80, resolution = 144\<rparr>"

definition demo_env :: env where
  "demo_env =
     \<lparr>format_text = (\<lambda>t. t), default_config = demo_config,
      class_lists =
        \<lparr>ca_pagination_phrases = [], ca_v_edges = [], ca_h_edges = [], ca_tables = [],
         ca_table_phrases = [], ca_tables_raw = [], ca_paragraphs = [], ca_images = [],
         ca_images_raw = [], ca_image_phrases = []\<rparr>,
      remove_duplicate_chars = (\<lambda>cs ov. cs),
      analyze_char_size = (\<lambda>cs up lo d. (d, d)),
      analyze_page_orientation = (\<lambda>pg. ''portrait''),
      extract_words = (\<lambda>pg xt yt. []),
      analyze_page_num_word = (\<lambda>ps h w t l r. []),
      crop = (\<lambda>pg bb. Inl ExternalError),
      page_edges = (\<lambda>pg. []),
      within_bbox_edges = (\<lambda>pg bb. Inl ExternalError),
      edges_to_lines = (\<lambda>es. ([], [])),
      remove_single_lines = (\<lambda>ls mx mn vd v. ls),
      page_lines = (\<lambda>pg. []),
      page_curves = (\<lambda>pg. []),
      curve_to_lines = (\<lambda>cs. ([], [])),
      find_tables = (\<lambda>pg ve he t. Inl ExternalError),
      convert_plumber_table = (\<lambda>pg t pid tid cfg mn av. None),
      merge_page_figures = (\<lambda>pg ts lg pid. []),
      image_file = (\<lambda>d p pid k. d),
      save_region = (\<lambda>pg bb r f. None),
      within_bbox_words = (\<lambda>pg bb t. Inl ExternalError),
      calculate_paragraph_border = (\<lambda>st. (border st, table_phrases st)),
      paragraph_bbox = (\<lambda>p. (0, 0, 0, 0)),
      debug_image = (\<lambda>tag st. None),
      toc_marker = (\<lambda>pg. False)\<rparr>"

definition demo_page :: page where
  "demo_page = \<lparr>width = 450, height = 800, chars = []\<rparr>"

definition demo_DePage :: DePage where
  "demo_DePage =
     \<lparr>d_page = demo_page, d_pid = 1, d_config = demo_config,
      same = [], same_tmp = [], logo = [],
      new_para_start_flag = None, new_para_end_flag = None,
      orientation = ''portrait'', ave_cs = 10, min_cs = 10,
      x_tolerance = 15, y_tolerance = 5,
      pagination_phrases = [], phrases = Some [],
      frame_top = 0, frame_bottom = 800,
      ave_lh = 12, border = (50, 100, 400, 700),
      v_edges = [], h_edges = [],
      verbose = False, debug = False,
      temp_dir = ''temp'', prefix = UuidObj,
      tables = [], table_phrases = [], tables_raw = [],
      paragraphs = [], images = [], images_raw = [],
      image_phrases = [], toc_flag = False\<rparr>"

text \<open>A word dictionary with the five keys of pdfplumber.\<close>

definition word :: "rat \<Rightarrow> rat \<Rightarrow> rat \<Rightarrow> rat \<Rightarrow> string \<Rightarrow> pword" where
  "word a b c d t =
     \<lparr>w_x0 = a, w_top = b, w_x1 = c, w_bottom = d, w_text = t,
      w_mode = None, w_level = None\<rparr>"

text \<open>
  A header or footer descriptor of a portrait page, and an environment whose page has
  two words: the crop around the first holds three glyphs, the crop around the second
  none.
\<close>

definition zone :: "string \<Rightarrow> rat \<Rightarrow> rat \<Rightarrow> pword" where
  "zone lv t b =
     \<lparr>w_x0 = 50, w_top = t, w_x1 = 400, w_bottom = b, w_text = ''depdf'',
      w_mode = Some ''portrait'', w_level = Some lv\<rparr>"

definition demo_crop_env :: env where
  "demo_crop_env =
     demo_env\<lparr>extract_words :=
                (\<lambda>pg xt yt. [word 50 100 200 112 ''Ab'', word 50 126 200 138 ''cd'']),
              crop := (\<lambda>pg bb. if fst (snd bb) = 100
                         then Inr [\<lparr>g_top = 101, g_bottom = 111\<rparr>,
                                   \<lparr>g_top = 99, g_bottom = 113\<rparr>,
                                   \<lparr>g_top = 102, g_bottom = 110\<rparr>]
                         else Inr [])\<rparr>"

text \<open>
  The two body lines of the paragraph-merge example of the spec, with their texts, and
  two pages that hold them: one with the example's border (right edge 400), one whose
  border ends at 210.
\<close>

definition line_A :: "string \<Rightarrow> pword" where
  "line_A t = word 50 100 200 112 t"

definition line_B :: "string \<Rightarrow> pword" where
  "line_B t = word 50 126 200 138 t"

definition split_page :: DePage where
  "split_page =
     demo_DePage\<lparr>phrases := Some [line_A ''Lorem ipsum dol'', line_B ''or sit amet, co'']\<rparr>"

definition merge_page :: DePage where
  "merge_page =
     demo_DePage\<lparr>border := (50, 100, 210, 700),
                 phrases := Some [line_A ''Lorem ipsum dol'', line_B ''or sit amet, co'']\<rparr>"

text \<open>
  A page whose first phrase is the caption word of an image, left of the paragraph
  border; a page with a page number among its phrases; and a page whose border is one
  character wide.
\<close>

definition figure_page :: DePage where
  "figure_page =
     demo_DePage\<lparr>image_phrases := [word 10 20 40 32 ''Fig''],
                 phrases := Some [word 10 20 40 32 ''Fig'',
                                  word 50 100 390 112 ''The quick brown fox jumps over it.'']\<rparr>"

definition numbered_page :: DePage where
  "numbered_page =
     demo_DePage\<lparr>pagination_phrases := [word 220 760 230 772 ''7''],
                 phrases := Some [word 50 100 390 112 ''The quick brown fox jumps over it.'',
                                  word 220 760 230 772 ''7'']\<rparr>"


section \<open>Theorems\<close>

subsection \<open>C1: a phrase with empty text\<close>

text \<open>
  C1 says that \<open>extract_paragraph\<close> completes without raising when the text of a
  phrase is empty. Line 427 guards the call of \<open>format_text\<close> against an empty text,
  but line 423 has already divided the width of the phrase by \<open>len(i['text'])\<close>. On
  the page whose only phrase is \<open>(50, 100, 200, 112)\<close> with text \<open>''\<close> the run raises
  the division error of \<open>Decimal\<close>.
\<close>

theorem extract_paragraph_empty_text_raises:
  "extract_paragraph demo_env (demo_DePage\<lparr>phrases := Some [word 50 100 200 112 []]\<rparr>)
     = Inl ZeroDivisionError"
  by (simp add: extract_paragraph_def demo_DePage_def word_def phrase_step_def
      excluded_def py_div_def)

subsection \<open>C4: the main frame\<close>

lemma select_level_filter:
  "select_level ori lv xs = Inr r \<Longrightarrow>
     r = filter (\<lambda>i. w_mode i = Some ori \<and> w_level i = Some lv) xs"
  by (induction xs arbitrary: r) (auto split: option.splits if_splits sum.splits)

lemma fold_max_le: "a \<le> b \<Longrightarrow> (\<And>x. x \<in> set xs \<Longrightarrow> x \<le> b) \<Longrightarrow> fold max xs a \<le> (b::rat)"
  by (induction xs arbitrary: a) auto

lemma max_or_le:
  "(xs = [] \<Longrightarrow> d \<le> b) \<Longrightarrow> (\<And>x. x \<in> set xs \<Longrightarrow> x \<le> b) \<Longrightarrow> max_or d xs \<le> b"
  by (cases xs) (auto simp: max_or_def intro!: fold_max_le)

lemma min_or_mem: "min_or d xs = d \<and> xs = [] \<or> min_or d xs \<in> set xs"
proof (cases xs)
  case Nil
  then show ?thesis by (simp add: min_or_def)
next
  case (Cons a as)
  have "fold min as a \<in> set (a # as)" for a :: rat and as
    by (induction as arbitrary: a) (auto simp: min_def)
  with Cons show ?thesis by (simp add: min_or_def)
qed

text \<open>
  C4 as stated: for every page and every list of zone descriptors,
  \<open>frame_top \<le> frame_bottom\<close> holds after \<open>analyze_main_frame\<close>. The function has no
  guard: with a header zone that ends at 400, a footer zone that starts at 402 and the
  default margin of half the character size (5), the frame top is 405 and the frame
  bottom 402.
\<close>

theorem analyze_main_frame_unordered:
  "analyze_main_frame (demo_DePage\<lparr>same := [zone ''head'' 380 400, zone ''tail'' 402 420]\<rparr>)
     = Inr (demo_DePage\<lparr>same := [zone ''head'' 380 400, zone ''tail'' 402 420],
                        frame_top := 405, frame_bottom := 402\<rparr>)
   \<and> \<not> (405 :: rat) \<le> 402"
  by (simp add: analyze_main_frame_def demo_DePage_def demo_config_def zone_def
      max_or_def min_or_def)

text \<open>
  C4, amended: after \<open>analyze_main_frame\<close> has run, \<open>frame_top \<le> frame_bottom\<close> holds
  when the zones are not degenerate: the bottom edge of every matching header zone plus
  the margin is at most the top edge of every matching footer zone and at most the page
  height, and no matching footer zone starts above the page (nor is the height
  negative).
\<close>

theorem analyze_main_frame_ordered:
  assumes run: "analyze_main_frame st = Inr st'"
    and ht: "\<And>i j. i \<in> set (same st) \<Longrightarrow> matching st ''head'' i \<Longrightarrow>
              j \<in> set (same st) \<Longrightarrow> matching st ''tail'' j \<Longrightarrow>
              w_bottom i + margin st \<le> w_top j"
    and hh: "\<And>i. i \<in> set (same st) \<Longrightarrow> matching st ''head'' i \<Longrightarrow>
              w_bottom i + margin st \<le> height (d_page st)"
    and t0: "\<And>j. j \<in> set (same st) \<Longrightarrow> matching st ''tail'' j \<Longrightarrow> 0 \<le> w_top j"
    and h0: "0 \<le> height (d_page st)"
  shows "frame_top st' \<le> frame_bottom st'"
proof -
  define heads where
    "heads = filter (\<lambda>i. w_mode i = Some (orientation st) \<and> w_level i = Some ''head'') (same st)"
  define tails where
    "tails = filter (\<lambda>i. w_mode i = Some (orientation st) \<and> w_level i = Some ''tail'') (same st)"
  from run have ft: "frame_top st' = max_or 0 (map (\<lambda>i. w_bottom i + margin st) heads)"
    and fb: "frame_bottom st' = min_or (height (d_page st)) (map w_top tails)"
    by (auto simp: analyze_main_frame_def Let_def heads_def tails_def margin_def
        split: sum.splits dest!: select_level_filter)
  show ?thesis
  proof (cases tails)
    case Nil
    then have "frame_bottom st' = height (d_page st)"
      by (simp add: fb min_or_def)
    moreover have "frame_top st' \<le> height (d_page st)"
      unfolding ft by (rule max_or_le) (use h0 hh in \<open>auto simp: heads_def matching_def\<close>)
    ultimately show ?thesis by simp
  next
    case (Cons t ts)
    have "frame_bottom st' \<in> set (map w_top tails)"
      using min_or_mem [of "height (d_page st)" "map w_top tails"] Cons by (auto simp: fb)
    then obtain j where j: "j \<in> set (same st)" "matching st ''tail'' j"
        "frame_bottom st' = w_top j"
      by (auto simp: tails_def matching_def)
    have "frame_top st' \<le> w_top j"
      unfolding ft
      by (rule max_or_le)
         (use ht [OF _ _ j(1,2)] t0 [OF j(1,2)] in \<open>auto simp: heads_def matching_def\<close>)
    with j show ?thesis by simp
  qed
qed

theorem analyze_main_frame_ordered_witness:
  "analyze_main_frame (demo_DePage\<lparr>same := [zone ''head'' 20 50, zone ''tail'' 750 780]\<rparr>)
     = Inr (demo_DePage\<lparr>same := [zone ''head'' 20 50, zone ''tail'' 750 780],
                        frame_top := 55, frame_bottom := 750\<rparr>)
   \<and> frame_top (demo_DePage\<lparr>same := [zone ''head'' 20 50, zone ''tail'' 750 780],
                            frame_top := 55, frame_bottom := 750\<rparr>)
     \<le> frame_bottom (demo_DePage\<lparr>same := [zone ''head'' 20 50, zone ''tail'' 750 780],
                            frame_top := 55, frame_bottom := 750\<rparr>)"
proof -
  let ?st = "demo_DePage\<lparr>same := [zone ''head'' 20 50, zone ''tail'' 750 780]\<rparr>"
  let ?st' = "?st\<lparr>frame_top := 55, frame_bottom := 750\<rparr>"
  have run: "analyze_main_frame ?st = Inr ?st'"
    by (simp add: analyze_main_frame_def demo_DePage_def demo_config_def zone_def
        max_or_def min_or_def)
  have "frame_top ?st' \<le> frame_bottom ?st'"
    by (rule analyze_main_frame_ordered [OF run])
       (auto simp: demo_DePage_def demo_config_def demo_page_def zone_def matching_def
          margin_def)
  with run show ?thesis by simp
qed

subsection \<open>C5: the extraction tolerances\<close>

text \<open>
  C5: after \<open>analyze_page_attributes\<close> the vertical tolerance is the configured
  \<open>y_tolerance\<close> when there is one, and otherwise 3 when \<open>ave_cs / 3 \<le> 3\<close> and
  \<open>ave_cs / 2\<close> when not; the horizontal tolerance is the configured \<open>x_tolerance\<close>
  when there is one, and otherwise \<open>ave_cs * 3 / 2\<close>. \<open>ave_cs\<close> is the value that
  the function has just stored.
\<close>

theorem analyze_page_attributes_tolerances:
  "y_tolerance (analyze_page_attributes en st) =
     (case cfg_y_tolerance (d_config st) of
        Some cyt \<Rightarrow> cyt
      | None \<Rightarrow> (if ave_cs (analyze_page_attributes en st) / 3 \<le> 3 then 3
                 else ave_cs (analyze_page_attributes en st) / 2))
   \<and> x_tolerance (analyze_page_attributes en st) =
     (case cfg_x_tolerance (d_config st) of
        Some cxt \<Rightarrow> cxt
      | None \<Rightarrow> ave_cs (analyze_page_attributes en st) * 3 / 2)"
  by (simp add: analyze_page_attributes_def Let_def split: prod.splits option.splits)

theorem analyze_page_attributes_tolerances_witness:
  "y_tolerance (analyze_page_attributes demo_env demo_DePage) = 6
   \<and> x_tolerance (analyze_page_attributes demo_env demo_DePage) = 18
   \<and> ave_cs (analyze_page_attributes demo_env demo_DePage) = 12"
  using analyze_page_attributes_tolerances [of demo_env demo_DePage]
  by (simp add: analyze_page_attributes_def demo_env_def demo_DePage_def demo_config_def)

subsection \<open>C6: normalising the words\<close>

lemma median_nonempty:
  assumes "xs \<noteq> []"
  shows "\<exists>m. median xs = Inr m"
proof -
  have n: "length (sort xs) \<noteq> 0"
    using assms by simp
  show ?thesis
  proof (cases "length (sort xs) mod 2 = 1")
    case True
    with n have "median xs = Inr (sort xs ! (length (sort xs) div 2))"
      unfolding median_def Let_def by (simp del: length_sort)
    then show ?thesis ..
  next
    case False
    with n have "median xs = Inr ((sort xs ! (length (sort xs) div 2 - 1) +
                                  sort xs ! (length (sort xs) div 2)) / 2)"
      unfolding median_def Let_def by (simp del: length_sort)
    then show ?thesis ..
  qed
qed

lemma median_empty: "median [] = Inl StatisticsError"
  by (simp add: median_def)

text \<open>
  C6: in \<open>extract_phrases\<close>, a word whose crop holds at least one glyph gets the median
  glyph top and the median glyph bottom as its \<open>top\<close> and \<open>bottom\<close>; a word whose crop
  raises or holds no glyph stays as it was. The phrases that \<open>extract_phrases\<close> stores are
  the words inside the main frame, each normalised so, and no failure of a crop makes
  \<open>extract_phrases\<close> raise: with the debug drawing off it always returns.
\<close>

theorem extract_phrases_normalizes:
  "(\<forall>w cs. crop en pg (word_bbox w) = Inr cs \<and> cs \<noteq> [] \<longrightarrow>
      (\<exists>t b. median (map g_top cs) = Inr t \<and> median (map g_bottom cs) = Inr b \<and>
             normalize_word en pg w = w\<lparr>w_top := t, w_bottom := b\<rparr>))
   \<and> (\<forall>w. (\<exists>e. crop en pg (word_bbox w) = Inl e) \<or> crop en pg (word_bbox w) = Inr [] \<longrightarrow>
         normalize_word en pg w = w)
   \<and> (\<forall>st'. extract_phrases en st = Inr st' \<longrightarrow>
         phrases st' = Some (map (normalize_word en (d_page st)) (framed_words en st)))
   \<and> (\<not> debug st \<longrightarrow> (\<exists>st'. extract_phrases en st = Inr st'))"
proof (intro conjI allI impI)
  fix w cs
  assume a: "crop en pg (word_bbox w) = Inr cs \<and> cs \<noteq> []"
  then obtain t b where "median (map g_top cs) = Inr t" "median (map g_bottom cs) = Inr b"
    using median_nonempty [of "map g_top cs"] median_nonempty [of "map g_bottom cs"] by auto
  with a show "\<exists>t b. median (map g_top cs) = Inr t \<and> median (map g_bottom cs) = Inr b \<and>
             normalize_word en pg w = w\<lparr>w_top := t, w_bottom := b\<rparr>"
    by (simp add: normalize_word_def word_bbox_def)
next
  fix w
  assume "(\<exists>e. crop en pg (word_bbox w) = Inl e) \<or> crop en pg (word_bbox w) = Inr []"
  then show "normalize_word en pg w = w"
    by (auto simp: normalize_word_def word_bbox_def median_empty)
next
  fix st'
  assume "extract_phrases en st = Inr st'"
  then show "phrases st' = Some (map (normalize_word en (d_page st)) (framed_words en st))"
    by (auto simp: extract_phrases_def framed_words_def Let_def split: if_splits option.splits)
next
  assume "\<not> debug st"
  then show "\<exists>st'. extract_phrases en st = Inr st'"
    by (simp add: extract_phrases_def Let_def)
qed

theorem extract_phrases_normalizes_witness:
  "normalize_word demo_crop_env demo_page (word 50 100 200 112 ''Ab'')
     = word 50 101 200 111 ''Ab''
   \<and> normalize_word demo_crop_env demo_page (word 50 126 200 138 ''cd'')
     = word 50 126 200 138 ''cd''
   \<and> \<not> debug demo_DePage
   \<and> (\<exists>st'. extract_phrases demo_crop_env demo_DePage = Inr st' \<and>
            phrases st' = Some [word 50 101 200 111 ''Ab'', word 50 126 200 138 ''cd''])"
proof -
  note T = extract_phrases_normalizes [of demo_crop_env demo_page demo_DePage]
  let ?gs = "[\<lparr>g_top = 101, g_bottom = 111\<rparr>, \<lparr>g_top = 99, g_bottom = 113\<rparr>,
              \<lparr>g_top = 102, g_bottom = 110\<rparr>]"
  have c1: "crop demo_crop_env demo_page (word_bbox (word 50 100 200 112 ''Ab'')) = Inr ?gs
            \<and> ?gs \<noteq> []"
    by (simp add: demo_crop_env_def demo_env_def word_bbox_def word_def)
  have m1: "median (map g_top ?gs) = Inr 101" "median (map g_bottom ?gs) = Inr 111"
    by (simp_all add: median_def Let_def)
  from T c1 have "\<exists>t b. median (map g_top ?gs) = Inr t \<and> median (map g_bottom ?gs) = Inr b \<and>
      normalize_word demo_crop_env demo_page (word 50 100 200 112 ''Ab'')
        = (word 50 100 200 112 ''Ab'')\<lparr>w_top := t, w_bottom := b\<rparr>"
    by blast
  with m1 have n1: "normalize_word demo_crop_env demo_page (word 50 100 200 112 ''Ab'')
      = word 50 101 200 111 ''Ab''"
    by (auto simp: word_def)
  have c2: "crop demo_crop_env demo_page (word_bbox (word 50 126 200 138 ''cd'')) = Inr []"
    by (simp add: demo_crop_env_def demo_env_def word_bbox_def word_def)
  with T have n2: "normalize_word demo_crop_env demo_page (word 50 126 200 138 ''cd'')
      = word 50 126 200 138 ''cd''"
    by blast
  have d: "\<not> debug demo_DePage"
    by (simp add: demo_DePage_def)
  with T obtain st' where run: "extract_phrases demo_crop_env demo_DePage = Inr st'"
    by blast
  with T have "phrases st' =
      Some (map (normalize_word demo_crop_env (d_page demo_DePage))
              (framed_words demo_crop_env demo_DePage))"
    by blast
  moreover have "framed_words demo_crop_env demo_DePage
      = [word 50 100 200 112 ''Ab'', word 50 126 200 138 ''cd'']"
    by (simp add: framed_words_def demo_crop_env_def demo_env_def demo_DePage_def word_def)
  moreover have "d_page demo_DePage = demo_page"
    by (simp add: demo_DePage_def)
  ultimately have "phrases st' = Some [word 50 101 200 111 ''Ab'', word 50 126 200 138 ''cd'']"
    using n1 n2 by simp
  with run n1 n2 d show ?thesis by blast
qed

subsection \<open>C8: the type checks of the constructor\<close>






subsection \<open>The loop of \<open>extract_paragraph\<close>\<close>

lemmas eval_defs = extract_paragraph_def init_loop_def phrase_step_def excluded_def py_div_def
  phrase_flags_def normal_mode_def toc_mode_def flush_def infer_style_def float_0_3_def
  final_flush_def continuation_flags_def Let_def demo_DePage_def demo_env_def demo_page_def
  word_def line_A_def line_B_def

lemma phrase_step_excluded: "excluded st i \<Longrightarrow> phrase_step en st s i = Inr s"
  by (simp add: phrase_step_def)

lemma loop_entries_flush: "loop_entries (flush st s) = loop_entries s"
  by (simp add: loop_entries_def flush_def all_entries_def)

lemma infer_style_total: "cs \<noteq> 0 \<Longrightarrow> \<exists>sty. infer_style ts cs c d m = Inr sty"
  by (simp add: infer_style_def py_div_def)

lemma phrase_step_eq:
  assumes ex: "\<not> excluded st i" and t: "w_text i \<noteq> []"
  shows "phrase_step en st s i =
     (let f = step_flags st s i;
          s1 = (if new_para_flag f \<and> paragraph_objects s \<noteq> [] then flush st s else s)
      in case (if para_style s1 = []
               then infer_style (glyph_width st i) (ave_cs st) (fl_center f) (fl_div f)
                      (w_x0 i - fst (border st))
               else Inr (para_style s1)) of
           Inl e \<Rightarrow> Inl e
         | Inr sty \<Rightarrow>
             Inr (s1\<lparr>para_style := sty,
                     paragraph_objects := paragraph_objects s1 @
                       [if new_line_flag f then Text (word_bbox i) (format_text en (w_text i))
                        else Span (word_bbox i) (format_text en (w_text i))
                               [(''margin-left'', Px (w_x0 i - p_left s))]],
                     ave_ts := glyph_width st i,
                     div_flag := fl_div f, center_flag := fl_center f,
                     cur_left := w_x0 i, p_left := w_x0 i, p_top := w_top i,
                     p_right := w_x1 i, p_bottom := w_bottom i\<rparr>))"
proof -
  have q: "py_div (w_x1 i - w_x0 i) (of_nat (length (w_text i)))
             = Inr ((w_x1 i - w_x0 i) / of_nat (length (w_text i)))"
    using t by (simp add: py_div_def)
  show ?thesis
    unfolding phrase_step_def Let_def step_flags_def word_bbox_def glyph_width_def
    by (simp add: ex q t split del: if_split cong: if_cong sum.case_cong)
qed

lemma phrase_step_entry:
  assumes "\<not> excluded st i" and "phrase_step en st s i = Inr s'"
  shows "\<exists>ob. loop_entries s' = loop_entries s @ [ob] \<and> entry_bbox ob = word_bbox i \<and>
              entry_text ob = format_text en (w_text i) \<and> paragraph_objects s' \<noteq> [] \<and>
              p_right s' = w_x1 i \<and> w_text i \<noteq> []"
proof -
  from assms have t: "w_text i \<noteq> []"
    by (auto simp: phrase_step_def py_div_def split: sum.splits if_splits)
  define f where "f = step_flags st s i"
  define s1 where "s1 = (if new_para_flag f \<and> paragraph_objects s \<noteq> [] then flush st s else s)"
  define ob where "ob = (if new_line_flag f then Text (word_bbox i) (format_text en (w_text i))
                   else Span (word_bbox i) (format_text en (w_text i))
                          [(''margin-left'', Px (w_x0 i - p_left s))])"
  have e1: "loop_entries s1 = loop_entries s"
    by (simp add: s1_def loop_entries_flush)
  from assms(2) obtain sty where
    s': "s' = s1\<lparr>para_style := sty,
                 paragraph_objects := paragraph_objects s1 @ [ob],
                 ave_ts := glyph_width st i,
                 div_flag := fl_div f, center_flag := fl_center f,
                 cur_left := w_x0 i, p_left := w_x0 i, p_top := w_top i,
                 p_right := w_x1 i, p_bottom := w_bottom i\<rparr>"
    unfolding phrase_step_eq [OF assms(1) t] Let_def f_def [symmetric] s1_def [symmetric]
      ob_def [symmetric]
    by (auto split: sum.splits)
  have "loop_entries s' = loop_entries s1 @ [ob]"
    by (simp add: s' loop_entries_def)
  moreover have "entry_bbox ob = word_bbox i \<and> entry_text ob = format_text en (w_text i)"
    by (simp add: ob_def)
  ultimately show ?thesis
    using e1 t by (auto simp: s')
qed



lemma phrase_loop_entries:
  assumes "phrase_loop en st s ps = Inr s'"
  shows "map entry_bbox (loop_entries s') =
           map entry_bbox (loop_entries s) @ map word_bbox (survivors st ps)
         \<and> map entry_text (loop_entries s') =
           map entry_text (loop_entries s) @ map (\<lambda>i. format_text en (w_text i)) (survivors st ps)
         \<and> (survivors st ps \<noteq> [] \<longrightarrow>
              paragraph_objects s' \<noteq> [] \<and> p_right s' = w_x1 (last (survivors st ps)))
         \<and> (survivors st ps = [] \<longrightarrow> s' = s)"
  using assms
proof (induction ps arbitrary: s)
  case Nil
  then show ?case by (simp add: survivors_def)
next
  case (Cons i ps)
  show ?case
  proof (cases "excluded st i")
    case True
    with Cons.prems have "phrase_loop en st s ps = Inr s'"
      by (simp add: phrase_step_excluded)
    from Cons.IH [OF this] True show ?thesis
      by (simp add: survivors_def)
  next
    case False
    from Cons.prems obtain s1 where s1: "phrase_step en st s i = Inr s1"
      and rest: "phrase_loop en st s1 ps = Inr s'"
      by (auto split: sum.splits)
    from phrase_step_entry [OF False s1] obtain ob where
      ob: "loop_entries s1 = loop_entries s @ [ob]" "entry_bbox ob = word_bbox i"
          "entry_text ob = format_text en (w_text i)" "paragraph_objects s1 \<noteq> []"
          "p_right s1 = w_x1 i"
      by blast
    from Cons.IH [OF rest] ob False show ?thesis
      by (auto simp: survivors_def)
  qed
qed

lemma final_flush_entries:
  assumes "final_flush st s = Inr paras"
  shows "all_entries paras = loop_entries s
         \<and> (paragraph_objects s \<noteq> [] \<longrightarrow> paras \<noteq> [])
         \<and> (paragraph_objects s = [] \<longrightarrow> paras = acc_paragraphs s)"
  using assms
  by (auto simp: final_flush_def all_entries_def loop_entries_def split: if_splits sum.splits)


subsection \<open>C7: excluded phrases\<close>

text \<open>
  C7: the phrases that contribute a \<open>Text\<close> or \<open>Span\<close> entry to the paragraphs are
  disjoint from the four exclusion lists. When \<open>extract_paragraph\<close> returns, the entries
  of its paragraphs, in order, are the entries of exactly the phrases that are in none of
  the lists (one entry each, with the bounding box and the formatted text of the
  phrase), and the loop body leaves its state unchanged on a phrase that is in one of
  them.
\<close>

theorem extract_paragraph_skips_excluded:
  assumes run: "extract_paragraph en st = Inr st'" and ps: "phrases st = Some ps"
  shows "map entry_bbox (all_entries (paragraphs st')) = map word_bbox (survivors st ps)
       \<and> map entry_text (all_entries (paragraphs st')) =
           map (\<lambda>i. format_text en (w_text i)) (survivors st ps)
       \<and> (\<forall>i \<in> set (survivors st ps).
             i \<notin> set (same_tmp st) \<and> i \<notin> set (image_phrases st) \<and>
             i \<notin> set (table_phrases st) \<and> i \<notin> set (pagination_phrases st))
       \<and> (\<forall>i s. excluded st i \<longrightarrow> phrase_step en st s i = Inr s)"
proof -
  from run ps obtain s paras where
    loop: "phrase_loop en st (init_loop st) ps = Inr s"
    and fl: "final_flush st s = Inr paras"
    and st': "paragraphs st' = paras"
    by (auto simp: extract_paragraph_def split: sum.splits prod.splits)
  have "loop_entries (init_loop st) = []"
    by (simp add: init_loop_def loop_entries_def all_entries_def split: prod.splits)
  with phrase_loop_entries [OF loop] final_flush_entries [OF fl] st'
  have "map entry_bbox (all_entries (paragraphs st')) = map word_bbox (survivors st ps)"
    and "map entry_text (all_entries (paragraphs st')) =
           map (\<lambda>i. format_text en (w_text i)) (survivors st ps)"
    by simp_all
  moreover have "\<forall>i \<in> set (survivors st ps).
             i \<notin> set (same_tmp st) \<and> i \<notin> set (image_phrases st) \<and>
             i \<notin> set (table_phrases st) \<and> i \<notin> set (pagination_phrases st)"
    by (simp add: survivors_def excluded_def)
  ultimately show ?thesis
    by (simp add: phrase_step_excluded)
qed

lemma numbered_page_run:
  "extract_paragraph demo_env numbered_page =
     Inr (numbered_page\<lparr>paragraphs :=
            [\<lparr>pg_pid = 1, pg_para_idx = 1,
              inner_objects = [Text (50, 100, 390, 112) ''The quick brown fox jumps over it.''],
              pg_style = []\<rparr>],
          new_para_start_flag := Some False, new_para_end_flag := Some False\<rparr>)"
  by (simp add: numbered_page_def eval_defs)

theorem extract_paragraph_skips_excluded_witness:
  "excluded numbered_page (word 220 760 230 772 ''7'')
   \<and> survivors numbered_page
         [word 50 100 390 112 ''The quick brown fox jumps over it.'', word 220 760 230 772 ''7'']
       = [word 50 100 390 112 ''The quick brown fox jumps over it.'']
   \<and> map entry_bbox (all_entries
         [\<lparr>pg_pid = 1, pg_para_idx = 1,
           inner_objects = [Text (50, 100, 390, 112) ''The quick brown fox jumps over it.''],
           pg_style = []\<rparr>])
       = [(50, 100, 390, 112)]"
proof -
  have ps: "phrases numbered_page =
      Some [word 50 100 390 112 ''The quick brown fox jumps over it.'',
            word 220 760 230 772 ''7'']"
    by (simp add: numbered_page_def)
  have e: "excluded numbered_page (word 220 760 230 772 ''7'')"
    by (simp add: numbered_page_def excluded_def demo_DePage_def)
  have sv: "survivors numbered_page
         [word 50 100 390 112 ''The quick brown fox jumps over it.'', word 220 760 230 772 ''7'']
       = [word 50 100 390 112 ''The quick brown fox jumps over it.'']"
    by (simp add: survivors_def numbered_page_def excluded_def demo_DePage_def word_def)
  from extract_paragraph_skips_excluded [OF numbered_page_run ps] e sv show ?thesis
    by (simp add: word_bbox_def word_def)
qed

subsection \<open>C3: the continuation flags\<close>

lemma figure_page_run:
  "extract_paragraph demo_env figure_page =
     Inr (figure_page\<lparr>paragraphs :=
            [\<lparr>pg_pid = 1, pg_para_idx = 1,
              inner_objects = [Text (50, 100, 390, 112) ''The quick brown fox jumps over it.''],
              pg_style = []\<rparr>],
          new_para_start_flag := Some False, new_para_end_flag := Some False\<rparr>)"
  by (simp add: figure_page_def eval_defs)

text \<open>
  C3 as stated: \<open>new_para_start_flag\<close> is set false exactly when the left edge of the
  first phrase is within one glyph width of the left edge of the border. Line 501
  compares the signed offset \<open>x0 - ll\<close>, not the distance. On \<open>figure_page\<close> the first
  phrase starts at 10, the border at 50 and the glyph width is 10: the edge is 40 away
  from the border, and the flag is set false.
\<close>

theorem continuation_flags_signed_offset:
  "extract_paragraph demo_env figure_page =
     Inr (figure_page\<lparr>paragraphs :=
            [\<lparr>pg_pid = 1, pg_para_idx = 1,
              inner_objects = [Text (50, 100, 390, 112) ''The quick brown fox jumps over it.''],
              pg_style = []\<rparr>],
          new_para_start_flag := Some False, new_para_end_flag := Some False\<rparr>)
   \<and> \<not> \<bar>w_x0 (word 10 20 40 32 ''Fig'') - 50\<bar>
         \<le> glyph_width figure_page (word 10 20 40 32 ''Fig'')"
  using figure_page_run
  by (simp add: figure_page_def glyph_width_def demo_DePage_def word_def)

text \<open>
  C3, amended: when \<open>extract_paragraph\<close> returns with no paragraph, both flags are
  \<open>None\<close>. When it returns with at least one paragraph, both flags are booleans that
  default to true; with \<open>g\<close> the glyph width of the first element of \<open>self.phrases\<close> (the
  maximum of its width per character and \<open>ave_cs\<close>), \<open>new_para_start_flag\<close> is false
  exactly when the signed offset of that phrase's left edge from the border's left edge
  is at most \<open>g\<close> (a phrase that starts left of the border also clears the flag), and
  \<open>new_para_end_flag\<close> is false exactly when the right edge of the last phrase that was
  not excluded is within \<open>1.5 g\<close> of the border's right edge.
\<close>

theorem continuation_flags_spec:
  assumes run: "extract_paragraph en st = Inr st'"
  shows "(paragraphs st' = [] \<longrightarrow>
            new_para_start_flag st' = None \<and> new_para_end_flag st' = None)
       \<and> (paragraphs st' \<noteq> [] \<longrightarrow>
            (\<exists>first rest ll tt lr tb.
               phrases st = Some (first # rest) \<and> border st = (ll, tt, lr, tb) \<and>
               survivors st (first # rest) \<noteq> [] \<and>
               new_para_start_flag st' = Some (\<not> (w_x0 first - ll \<le> glyph_width st first)) \<and>
               new_para_end_flag st' =
                 Some (\<not> (\<bar>w_x1 (last (survivors st (first # rest))) - lr\<bar>
                            \<le> glyph_width st first * 3 / 2))))"
proof -
  from run obtain ps s paras sf ef where
    ps: "phrases st = Some ps"
    and loop: "phrase_loop en st (init_loop st) ps = Inr s"
    and fl: "final_flush st s = Inr paras"
    and cf: "continuation_flags st ps s paras = Inr (sf, ef)"
    and st': "st' = st\<lparr>paragraphs := paras, new_para_start_flag := sf, new_para_end_flag := ef\<rparr>"
    by (auto simp: extract_paragraph_def split: sum.splits prod.splits option.splits)
  have init: "paragraph_objects (init_loop st) = []" "acc_paragraphs (init_loop st) = []"
    by (simp_all add: init_loop_def split: prod.splits)
  note L = phrase_loop_entries [OF loop]
  note F = final_flush_entries [OF fl]
  show ?thesis
  proof (cases "paras = []")
    case True
    with cf st' show ?thesis
      by (simp add: continuation_flags_def)
  next
    case False
    have sv: "survivors st ps \<noteq> []"
    proof
      assume "survivors st ps = []"
      with L have "s = init_loop st" by simp
      with F init have "paras = []" by simp
      with False show False by simp
    qed
    then obtain first rest where fr: "ps = first # rest"
      by (cases ps) (auto simp: survivors_def)
    obtain ll tt lr tb where b: "border st = (ll, tt, lr, tb)"
      by (cases "border st") auto
    from L sv have rgt: "p_right s = w_x1 (last (survivors st ps))"
      by simp
    from cf False fr b rgt have "sf = Some (\<not> (w_x0 first - ll \<le> glyph_width st first))"
      and "ef = Some (\<not> (\<bar>w_x1 (last (survivors st ps)) - lr\<bar> \<le> glyph_width st first * 3 / 2))"
      by (auto simp: continuation_flags_def glyph_width_def py_div_def split: sum.splits if_splits)
    with False st' ps fr b sv show ?thesis
      by simp
  qed
qed

theorem continuation_flags_spec_witness:
  "(\<exists>st'. extract_paragraph demo_env figure_page = Inr st' \<and> paragraphs st' \<noteq> [] \<and>
      new_para_start_flag st' =
        Some (\<not> (w_x0 (word 10 20 40 32 ''Fig'') - 50
                   \<le> glyph_width figure_page (word 10 20 40 32 ''Fig''))) \<and>
      new_para_end_flag st' =
        Some (\<not> (\<bar>w_x1 (word 50 100 390 112 ''The quick brown fox jumps over it.'') - 400\<bar>
                   \<le> glyph_width figure_page (word 10 20 40 32 ''Fig'') * 3 / 2)))
   \<and> glyph_width figure_page (word 10 20 40 32 ''Fig'') = 10"
proof -
  let ?st' = "figure_page\<lparr>paragraphs :=
        [\<lparr>pg_pid = 1, pg_para_idx = 1,
          inner_objects = [Text (50, 100, 390, 112) ''The quick brown fox jumps over it.''],
          pg_style = []\<rparr>],
      new_para_start_flag := Some False, new_para_end_flag := Some False\<rparr>"
  have ne: "paragraphs ?st' \<noteq> []"
    by simp
  have ph: "phrases figure_page =
      Some [word 10 20 40 32 ''Fig'', word 50 100 390 112 ''The quick brown fox jumps over it.'']"
    and bd: "border figure_page = (50, 100, 400, 700)"
    by (simp_all add: figure_page_def demo_DePage_def)
  have sv: "survivors figure_page
      [word 10 20 40 32 ''Fig'', word 50 100 390 112 ''The quick brown fox jumps over it.'']
      = [word 50 100 390 112 ''The quick brown fox jumps over it.'']"
    by (simp add: survivors_def excluded_def figure_page_def demo_DePage_def word_def)
  have g: "glyph_width figure_page (word 10 20 40 32 ''Fig'') = 10"
    by (simp add: glyph_width_def figure_page_def demo_DePage_def word_def)
  from continuation_flags_spec [OF figure_page_run] ne
  have "new_para_start_flag ?st' =
        Some (\<not> (w_x0 (word 10 20 40 32 ''Fig'') - 50
                   \<le> glyph_width figure_page (word 10 20 40 32 ''Fig'')))
      \<and> new_para_end_flag ?st' =
        Some (\<not> (\<bar>w_x1 (word 50 100 390 112 ''The quick brown fox jumps over it.'') - 400\<bar>
                   \<le> glyph_width figure_page (word 10 20 40 32 ''Fig'') * 3 / 2))"
    unfolding ph bd by (auto simp: sv)
  with figure_page_run ne g show ?thesis
    by blast
qed

subsection \<open>C10: a surviving phrase gives a paragraph\<close>




subsection \<open>C2: the paragraph-merge example\<close>

text \<open>
  C2 as stated: with line A at \<open>(50, 100, 200, 112)\<close>, line B at \<open>(50, 126, 200, 138)\<close>,
  average line height 12 and the border from 50 to 400, both lines end in one
  paragraph. Both demotion rules of lines 441--445 also ask that the right edge of the
  previous line (200) reaches to within 1.5 glyph widths of the right edge of the border
  (400). With lines of fifteen characters the glyph width is 10, and B opens a second
  paragraph.
\<close>

theorem paragraph_merge_example_splits:
  "extract_paragraph demo_env split_page =
     Inr (split_page\<lparr>paragraphs :=
            [\<lparr>pg_pid = 1, pg_para_idx = 1,
              inner_objects = [Text (50, 100, 200, 112) ''Lorem ipsum dol''], pg_style = []\<rparr>,
             \<lparr>pg_pid = 1, pg_para_idx = 2,
              inner_objects = [Text (50, 126, 200, 138) ''or sit amet, co''], pg_style = []\<rparr>],
          new_para_start_flag := Some False, new_para_end_flag := Some True\<rparr>)"
  by (simp add: split_page_def eval_defs)

lemma normal_mode_new_line:
  assumes "new_line_flag f" and "0 < ts" and "p_right s = lft"
  shows "new_line_flag (normal_mode st s (lft, tp, rgt, btm) ts th f)"
  using assms by (cases "border st") (simp add: normal_mode_def Let_def)

lemma first_on_border_new_line:
  assumes "\<not> toc_flag st" and "fst (border st) = w_x0 i" and "0 < ave_cs st"
  shows "new_line_flag (step_flags st (init_loop st) i)"
proof -
  have g: "0 < max ((w_x1 i - w_x0 i) / rat_of_nat (length (w_text i))) (ave_cs st)"
    using assms(3) by simp
  have p: "p_right (init_loop st) = w_x0 i"
    using assms(2) by (cases "border st") (simp add: init_loop_def)
  show ?thesis
    unfolding step_flags_def phrase_flags_def Let_def word_bbox_def
    using assms(1) by (simp add: normal_mode_new_line [OF _ g p])
qed

lemma line_B_flags:
  assumes "\<not> toc_flag st" and "border st = (50, tt, lr, tb)" and "ave_lh st = 12"
    and "p_bottom s = 112" and "p_top s = 100" and "p_right s = 200"
    and "0 < ave_cs st" and "ave_cs st \<le> 104"
    and "lr - glyph_width st (line_B t) * 3 / 2 \<le> 200"
  shows "step_flags st s (line_B t) =
           \<lparr>new_line_flag = True, new_para_flag = False, fl_center = False, fl_div = False\<rparr>"
proof -
  have a: "max 12 (ave_cs st) / 4 \<le> 26"
    using assms(8) by simp
  have b: "14 \<le> max (max 12 (ave_cs st) * 6 / 5) 12"
    by (simp add: max_def)
  have c: "lr - max (150 / rat_of_nat (length t)) (ave_cs st) * 3 / 2 \<le> 200"
    using assms(9) by (simp add: glyph_width_def line_B_def word_def)
  show ?thesis
    using assms(1-6) a b c
    by (simp add: step_flags_def phrase_flags_def normal_mode_def word_bbox_def line_B_def
        word_def Let_def)
qed

text \<open>
  C2, amended: in normal mode, with the two lines of the example (texts not empty,
  neither line excluded), average line height 12, a border whose left edge is 50 and
  whose right edge \<open>lr\<close> is at most \<open>200 + 1.5 g\<close>, where \<open>g\<close> is the glyph width of
  line B, and \<open>0 < ave_cs \<le> 104\<close>, \<open>extract_paragraph\<close> returns one paragraph that holds
  the two \<open>Text\<close> entries. For the right edge 400 of the example this asks for a glyph
  width of at least \<open>400 / 3\<close>.
\<close>

theorem paragraph_merge_example:
  assumes ps: "phrases st = Some [line_A ta, line_B tb]"
    and ta: "ta \<noteq> []" and tb: "tb \<noteq> []"
    and exA: "\<not> excluded st (line_A ta)" and exB: "\<not> excluded st (line_B tb)"
    and toc: "\<not> toc_flag st" and lh: "ave_lh st = 12"
    and bd: "border st = (50, tt, lr, tb')"
    and cs: "0 < ave_cs st" "ave_cs st \<le> 104"
    and reach: "lr - glyph_width st (line_B tb) * 3 / 2 \<le> 200"
  shows "\<exists>st' sty. extract_paragraph en st = Inr st' \<and>
           paragraphs st' =
             [\<lparr>pg_pid = d_pid st, pg_para_idx = 1,
               inner_objects = [Text (50, 100, 200, 112) (format_text en ta),
                                Text (50, 126, 200, 138) (format_text en tb)],
               pg_style = sty\<rparr>]"
proof -
  define s0 where "s0 = init_loop st"
  have s0: "paragraph_objects s0 = []" "para_style s0 = []" "acc_paragraphs s0 = []"
    "cur_para_idx s0 = 1"
    by (simp_all add: s0_def init_loop_def bd)
  have cs0: "ave_cs st \<noteq> 0"
    using cs(1) by simp
  have wA: "w_text (line_A ta) \<noteq> []" "w_x0 (line_A ta) = 50" "w_top (line_A ta) = 100"
    "w_x1 (line_A ta) = 200" "w_bottom (line_A ta) = 112"
    "word_bbox (line_A ta) = (50, 100, 200, 112)" "w_text (line_A ta) = ta"
    using ta by (simp_all add: line_A_def word_def word_bbox_def)
  have wB: "w_text (line_B tb) \<noteq> []" "w_x0 (line_B tb) = 50" "w_top (line_B tb) = 126"
    "w_x1 (line_B tb) = 200" "w_bottom (line_B tb) = 138"
    "word_bbox (line_B tb) = (50, 126, 200, 138)" "w_text (line_B tb) = tb"
    using tb by (simp_all add: line_B_def word_def word_bbox_def)
  \<comment> \<open>the first line\<close>
  define fA where "fA = step_flags st s0 (line_A ta)"
  have nlA: "new_line_flag fA"
    unfolding fA_def s0_def
    by (rule first_on_border_new_line) (simp_all add: toc bd wA cs)
  obtain styA where styA: "infer_style (glyph_width st (line_A ta)) (ave_cs st)
      (fl_center fA) (fl_div fA) (50 - fst (border st)) = Inr styA"
    using infer_style_total [OF cs0] by blast
  define sA where "sA = s0\<lparr>para_style := styA,
      paragraph_objects := [Text (50, 100, 200, 112) (format_text en ta)],
      ave_ts := glyph_width st (line_A ta), div_flag := fl_div fA, center_flag := fl_center fA,
      cur_left := 50, p_left := 50, p_top := 100, p_right := 200, p_bottom := 112\<rparr>"
  have stepA: "phrase_step en st s0 (line_A ta) = Inr sA"
    unfolding phrase_step_eq [OF exA wA(1)] Let_def fA_def [symmetric]
    by (simp add: s0 styA nlA wA sA_def)
  have sA: "paragraph_objects sA = [Text (50, 100, 200, 112) (format_text en ta)]"
    "acc_paragraphs sA = []" "cur_para_idx sA = 1" "para_style sA = styA"
    "p_bottom sA = 112" "p_top sA = 100" "p_right sA = 200"
    by (simp_all add: sA_def s0)
  \<comment> \<open>the second line\<close>
  have fB: "step_flags st sA (line_B tb) =
      \<lparr>new_line_flag = True, new_para_flag = False, fl_center = False, fl_div = False\<rparr>"
    by (rule line_B_flags [OF toc bd lh sA(5,6,7) cs reach])
  obtain styB where styB: "(if styA = []
      then infer_style (glyph_width st (line_B tb)) (ave_cs st) False False
             (50 - fst (border st))
      else Inr styA) = Inr styB"
    using infer_style_total [OF cs0, of "glyph_width st (line_B tb)" False False
            "50 - fst (border st)"]
    by (cases "styA = []") auto
  define sB where "sB = sA\<lparr>para_style := styB,
      paragraph_objects := [Text (50, 100, 200, 112) (format_text en ta),
                            Text (50, 126, 200, 138) (format_text en tb)],
      ave_ts := glyph_width st (line_B tb), div_flag := False, center_flag := False,
      cur_left := 50, p_left := 50, p_top := 126, p_right := 200, p_bottom := 138\<rparr>"
  have stepB: "phrase_step en st sA (line_B tb) = Inr sB"
  proof (cases "styA = []")
    case True
    with styB have "infer_style (glyph_width st (line_B tb)) (ave_cs st) False False
        (50 - fst (border st)) = Inr styB"
      by simp
    then show ?thesis
      unfolding phrase_step_eq [OF exB wB(1)] Let_def fB
      by (simp add: True sA wB sB_def)
  next
    case False
    with styB have "styB = styA"
      by simp
    then show ?thesis
      unfolding phrase_step_eq [OF exB wB(1)] Let_def fB
      by (simp add: False sA wB sB_def)
  qed
  have loop: "phrase_loop en st (init_loop st) [line_A ta, line_B tb] = Inr sB"
    using stepA stepB by (simp add: s0_def)
  \<comment> \<open>the last paragraph and the flags\<close>
  obtain sty where sty: "infer_style (glyph_width st (line_B tb)) (ave_cs st) False False
      (50 - fst (border st)) = Inr sty"
    using infer_style_total [OF cs0] by blast
  have fl: "final_flush st sB =
      Inr [\<lparr>pg_pid = d_pid st, pg_para_idx = 1,
            inner_objects = [Text (50, 100, 200, 112) (format_text en ta),
                             Text (50, 126, 200, 138) (format_text en tb)],
            pg_style = sty\<rparr>]"
    unfolding final_flush_def using sty by (simp add: sB_def sA)
  obtain sf ef where cf: "continuation_flags st [line_A ta, line_B tb] sB
      [\<lparr>pg_pid = d_pid st, pg_para_idx = 1,
        inner_objects = [Text (50, 100, 200, 112) (format_text en ta),
                         Text (50, 126, 200, 138) (format_text en tb)],
        pg_style = sty\<rparr>] = Inr (sf, ef)"
    using wA(1) by (auto simp: continuation_flags_def py_div_def bd)
  show ?thesis
    using ps loop fl cf by (simp add: extract_paragraph_def)
qed

theorem paragraph_merge_example_witness:
  "\<not> toc_flag merge_page \<and> ave_lh merge_page = 12 \<and> border merge_page = (50, 100, 210, 700)
   \<and> glyph_width merge_page (line_B ''or sit amet, co'') = 10
   \<and> (\<exists>st' sty. extract_paragraph demo_env merge_page = Inr st' \<and>
         paragraphs st' =
           [\<lparr>pg_pid = d_pid merge_page, pg_para_idx = 1,
             inner_objects = [Text (50, 100, 200, 112) ''Lorem ipsum dol'',
                              Text (50, 126, 200, 138) ''or sit amet, co''],
             pg_style = sty\<rparr>])"
proof -
  have ps: "phrases merge_page = Some [line_A ''Lorem ipsum dol'', line_B ''or sit amet, co'']"
    by (simp add: merge_page_def)
  have toc: "\<not> toc_flag merge_page" and lh: "ave_lh merge_page = 12"
    and bd: "border merge_page = (50, 100, 210, 700)"
    and cs: "0 < ave_cs merge_page" "ave_cs merge_page \<le> 104"
    by (simp_all add: merge_page_def demo_DePage_def)
  have g: "glyph_width merge_page (line_B ''or sit amet, co'') = 10"
    by (simp add: glyph_width_def merge_page_def demo_DePage_def line_B_def word_def)
  have reach: "210 - glyph_width merge_page (line_B ''or sit amet, co'') * 3 / 2 \<le> 200"
    by (simp add: g)
  have exA: "\<not> excluded merge_page (line_A ''Lorem ipsum dol'')"
    and exB: "\<not> excluded merge_page (line_B ''or sit amet, co'')"
    by (simp_all add: excluded_def merge_page_def demo_DePage_def)
  from paragraph_merge_example [OF ps _ _ exA exB toc lh bd cs reach, of demo_env]
  have "\<exists>st' sty. extract_paragraph demo_env merge_page = Inr st' \<and>
         paragraphs st' =
           [\<lparr>pg_pid = d_pid merge_page, pg_para_idx = 1,
             inner_objects = [Text (50, 100, 200, 112) (format_text demo_env ''Lorem ipsum dol''),
                              Text (50, 126, 200, 138) (format_text demo_env ''or sit amet, co'')],
             pg_style = sty\<rparr>]"
    by simp
  with toc lh bd g show ?thesis
    by (simp add: demo_env_def)
qed

subsection \<open>C9: \<open>toc_flag\<close> in \<open>process_page\<close>\<close>

lemma and_then_Inr: "and_then r f = Inr y \<Longrightarrow> \<exists>x. r = Inr x \<and> f x = Inr y"
  by (cases r) (simp_all add: and_then_def)

lemma debug_step_Inr: "debug_step en tag st = Inr st' \<Longrightarrow> st' = st"
  by (simp add: debug_step_def split: option.splits)

lemma toc_set_global: "toc_flag (set_global st) = toc_flag st"
  by (simp add: set_global_def Let_def)

lemma toc_init: "DePage_init en p pid sm lg c = Inr st \<Longrightarrow> \<not> toc_flag st"
  by (auto simp: DePage_init_def init_body_def toc_set_global
      split: sum.splits option.splits)

lemma toc_attributes: "toc_flag (analyze_page_attributes en st) = toc_flag st"
  by (simp add: analyze_page_attributes_def Let_def split: prod.splits)

lemma toc_main_frame: "analyze_main_frame st = Inr st' \<Longrightarrow> toc_flag st' = toc_flag st"
  by (auto simp: analyze_main_frame_def Let_def split: sum.splits)

lemma toc_phrases: "extract_phrases en st = Inr st' \<Longrightarrow> toc_flag st' = toc_flag st"
  by (auto simp: extract_phrases_def Let_def split: if_splits option.splits)

lemma toc_lines: "analyze_lines en st = Inr st' \<Longrightarrow> toc_flag st' = toc_flag st"
  by (auto simp: analyze_lines_def Let_def split: if_splits prod.splits
      dest!: and_then_Inr debug_step_Inr)

lemma toc_tables: "extract_tables en st = Inr st' \<Longrightarrow> toc_flag st' = toc_flag st"
  by (auto simp: extract_tables_def Let_def split: if_splits dest!: and_then_Inr debug_step_Inr)

lemma toc_images: "extract_images en st = Inr st' \<Longrightarrow> toc_flag st' = toc_flag st"
  by (auto simp: extract_images_def Let_def split: if_splits dest!: and_then_Inr debug_step_Inr)

lemma toc_border: "analyze_paragraph_border en st = Inr st' \<Longrightarrow> toc_flag st' = toc_flag st"
  by (auto simp: analyze_paragraph_border_def Let_def split: if_splits prod.splits
      dest!: debug_step_Inr)

lemma toc_paragraph: "extract_paragraph en st = Inr st' \<Longrightarrow> toc_flag st' = toc_flag st"
  by (auto simp: extract_paragraph_def split: sum.splits option.splits prod.splits)

lemma process_page_toc:
  assumes "process_page en st = Inr (objs, st')"
  shows "toc_flag st' = toc_flag st \<and>
         (\<exists>st5. toc_flag st5 = toc_flag st \<and> (st' = st5 \<or> extract_paragraph en st5 = Inr st'))"
proof -
  define st0 where "st0 = st\<lparr>d_page := (d_page st)\<lparr>chars :=
                   remove_duplicate_chars en (chars (d_page st))
                     (char_overlap_size (d_config st))\<rparr>\<rparr>"
  define st1 where "st1 = analyze_page_attributes en st0"
  have t1: "toc_flag st1 = toc_flag st"
    by (simp add: st1_def toc_attributes st0_def)
  from assms obtain st2 st3 st4 st5 st6 where
    a2: "analyze_main_frame st1 = Inr st2"
    and a3: "extract_phrases en st2 = Inr st3"
    and a4: "(if table_flag (d_config st3)
              then and_then (analyze_lines en st3) (extract_tables en) else Inr st3) = Inr st4"
    and a5: "(if image_flag (d_config st4) then extract_images en st4 else Inr st4) = Inr st5"
    and a6: "(if paragraph_flag (d_config st5)
              then and_then (analyze_paragraph_border en st5) (extract_paragraph en)
              else Inr st5) = Inr st6"
    and a7: "st' = st6"
    unfolding process_page_def Let_def st0_def [symmetric] st1_def [symmetric]
    by (auto dest!: and_then_Inr)
  have t2: "toc_flag st2 = toc_flag st" using toc_main_frame [OF a2] t1 by simp
  have t3: "toc_flag st3 = toc_flag st" using toc_phrases [OF a3] t2 by simp
  have t4: "toc_flag st4 = toc_flag st"
    using a4 t3 by (auto split: if_splits dest!: and_then_Inr toc_lines toc_tables)
  have t5: "toc_flag st5 = toc_flag st"
    using a5 t4 by (auto split: if_splits dest!: toc_images)
  show ?thesis
  proof (cases "paragraph_flag (d_config st5)")
    case True
    with a6 obtain stb where b: "analyze_paragraph_border en st5 = Inr stb"
      and e: "extract_paragraph en stb = Inr st6"
      by (auto dest!: and_then_Inr)
    have tb: "toc_flag stb = toc_flag st" using toc_border [OF b] t5 by simp
    with toc_paragraph [OF e] a7 e show ?thesis by auto
  next
    case False
    with a6 a7 t5 show ?thesis by auto
  qed
qed

text \<open>
  C9: \<open>process_page\<close> does not call \<open>check_if_toc_page\<close>. A freshly constructed page has
  \<open>toc_flag\<close> false; no stage of \<open>process_page\<close> changes \<open>toc_flag\<close>, so it has its
  initial value after \<open>process_page\<close> and in the state on which \<open>extract_paragraph\<close> ran;
  and with \<open>toc_flag\<close> false the flags of every phrase are those of the normal branch.
  Only \<open>check_if_toc_page\<close> can set the flag.
\<close>

theorem process_page_keeps_toc_flag:
  "(\<forall>st0. DePage_init en p pid sm lg c = Inr st0 \<longrightarrow> \<not> toc_flag st0)
   \<and> (\<forall>objs st'. process_page en st = Inr (objs, st') \<longrightarrow>
         toc_flag st' = toc_flag st \<and>
         (\<exists>st5. toc_flag st5 = toc_flag st \<and>
                (st' = st5 \<or> extract_paragraph en st5 = Inr st')))
   \<and> toc_flag (analyze_page_attributes en st) = toc_flag st
   \<and> (\<forall>st'. analyze_main_frame st = Inr st' \<or> extract_phrases en st = Inr st' \<or>
            analyze_lines en st = Inr st' \<or> extract_tables en st = Inr st' \<or>
            extract_images en st = Inr st' \<or> analyze_paragraph_border en st = Inr st' \<or>
            extract_paragraph en st = Inr st' \<longrightarrow> toc_flag st' = toc_flag st)
   \<and> (\<not> toc_flag st \<longrightarrow>
         (\<forall>s bb ts th. phrase_flags st s bb ts th =
            normal_mode st s bb ts th
              \<lparr>new_line_flag = True, new_para_flag = (acc_paragraphs s = []),
               fl_center = False, fl_div = False\<rparr>))
   \<and> toc_flag (check_if_toc_page en st) = (toc_flag st \<or> toc_marker en (d_page st))"
proof (intro conjI allI impI)
  fix st0
  assume "DePage_init en p pid sm lg c = Inr st0"
  then show "\<not> toc_flag st0" by (rule toc_init)
next
  fix objs st'
  assume "process_page en st = Inr (objs, st')"
  from process_page_toc [OF this] show "toc_flag st' = toc_flag st"
    and "\<exists>st5. toc_flag st5 = toc_flag st \<and> (st' = st5 \<or> extract_paragraph en st5 = Inr st')"
    by simp_all
next
  show "toc_flag (analyze_page_attributes en st) = toc_flag st"
    by (rule toc_attributes)
next
  fix st'
  assume "analyze_main_frame st = Inr st' \<or> extract_phrases en st = Inr st' \<or>
            analyze_lines en st = Inr st' \<or> extract_tables en st = Inr st' \<or>
            extract_images en st = Inr st' \<or> analyze_paragraph_border en st = Inr st' \<or>
            extract_paragraph en st = Inr st'"
  then show "toc_flag st' = toc_flag st"
    using toc_main_frame toc_phrases toc_lines toc_tables toc_images toc_border toc_paragraph
    by blast
next
  fix s bb ts th
  assume "\<not> toc_flag st"
  then show "phrase_flags st s bb ts th =
            normal_mode st s bb ts th
              \<lparr>new_line_flag = True, new_para_flag = (acc_paragraphs s = []),
               fl_center = False, fl_div = False\<rparr>"
    by (simp add: phrase_flags_def Let_def)
next
  show "toc_flag (check_if_toc_page en st) = (toc_flag st \<or> toc_marker en (d_page st))"
    by (simp add: check_if_toc_page_def)
qed

lemma demo_process_page:
  "process_page demo_crop_env demo_DePage =
     Inr ([ParagraphObj
             \<lparr>pg_pid = 1, pg_para_idx = 1, inner_objects = [Text (50, 101, 200, 111) ''Ab''],
              pg_style = [(''font-size'', PxSemi 75)]\<rparr>,
           ParagraphObj
             \<lparr>pg_pid = 1, pg_para_idx = 2, inner_objects = [Text (50, 126, 200, 138) ''cd''],
              pg_style = [(''font-size'', PxSemi 75)]\<rparr>],
          demo_DePage\<lparr>ave_cs := 12, min_cs := 12, x_tolerance := 18, y_tolerance := 6,
            phrases := Some [word 50 101 200 111 ''Ab'', word 50 126 200 138 ''cd''],
            ave_lh := 14,
            paragraphs :=
              [\<lparr>pg_pid = 1, pg_para_idx = 1, inner_objects = [Text (50, 101, 200, 111) ''Ab''],
                pg_style = [(''font-size'', PxSemi 75)]\<rparr>,
               \<lparr>pg_pid = 1, pg_para_idx = 2, inner_objects = [Text (50, 126, 200, 138) ''cd''],
                pg_style = [(''font-size'', PxSemi 75)]\<rparr>],
            new_para_start_flag := Some False, new_para_end_flag := Some True\<rparr>)"
  by (simp add: process_page_def and_then_def analyze_page_attributes_def analyze_main_frame_def
      extract_phrases_def analyze_lines_def extract_tables_def extract_images_def
      analyze_paragraph_border_def max_or_def min_or_def demo_config_def List.map_filter_def
      enumerate_eq_zip normalize_word_def median_def mean_def object_top_def demo_crop_env_def
      eval_defs)

theorem process_page_keeps_toc_flag_witness:
  "\<not> toc_flag demo_DePage
   \<and> (\<exists>objs st'. process_page demo_crop_env demo_DePage = Inr (objs, st') \<and> \<not> toc_flag st')
   \<and> (\<exists>st0. DePage_init demo_env (PageObj demo_page) 1 (Some []) None (ConfigObj demo_config)
               = Inr st0 \<and> \<not> toc_flag st0)"
proof -
  note T = process_page_keeps_toc_flag
    [of demo_crop_env "PageObj demo_page" 1 "Some []" None "ConfigObj demo_config" demo_DePage]
  have t: "\<not> toc_flag demo_DePage"
    by (simp add: demo_DePage_def)
  obtain objs st' where run: "process_page demo_crop_env demo_DePage = Inr (objs, st')"
    using demo_process_page by blast
  with T t have a: "\<not> toc_flag st'"
    by blast
  note U = process_page_keeps_toc_flag
    [of demo_env "PageObj demo_page" 1 "Some []" None "ConfigObj demo_config" demo_DePage]
  obtain st0 where i: "DePage_init demo_env (PageObj demo_page) 1 (Some []) None
      (ConfigObj demo_config) = Inr st0"
    by (simp add: DePage_init_def check_config_def init_body_def check_page_type_def
        check_config_type_def)
  with U have "\<not> toc_flag st0"
    by blast
  with t run a i show ?thesis
    by blast
qed

end
